theory Spec2Isabelle
  imports Main
begin

section \<open>yamleditor: path compiler, navigator and mutation engine\<close>

text \<open>
  A shallow embedding of the Go packages \<^verbatim>\<open>pkg/path\<close> and \<^verbatim>\<open>pkg/engine\<close>. Where the
  sources hold more than one version of a file, the embedding follows the parser with
  the regex selectors (\<^verbatim>\<open>findClosingBracket\<close>, regexp2), the navigator whose
  \<^verbatim>\<open>matchCondition\<close> handles \<open>OpRegex\<close>, the methods \<^verbatim>\<open>FindWithWhere\<close> and \<^verbatim>\<open>matchWhere\<close>
  of the navigator with the where-clause, and the engine with the four actions. Go
  strings are byte strings: a \<open>string\<close> here is the list of the bytes. Go's \<^verbatim>\<open>int\<close> is
  taken at 64 bits.
\<close>

subsection \<open>Outcomes of a call\<close>

text \<open>
  A Go call returns a value, returns an error, panics (nil dereference, index out of
  range, failed type assertion), or does not return (unbounded recursion). The last case
  is \<open>Timeout\<close>: the recursive functions below take a bound on their call depth.
\<close>

datatype ('e, 'a) outcome = Timeout | Panic | Err 'e | Ok 'a

subsection \<open>The external regular-expression libraries\<close>

text \<open>
  Two libraries are called and neither is part of the repository: \<^verbatim>\<open>dlclark/regexp2\<close>
  (parser.go) and Go's standard \<^verbatim>\<open>regexp\<close> (navigator.go, engine). They are taken as
  parameters. \<open>regexp2_Compile p\<close> holds when \<^verbatim>\<open>regexp2.Compile(p, 0)\<close> returns no error;
  \<open>regexp_MatchString p s\<close> is \<open>None\<close> when \<^verbatim>\<open>regexp.MatchString(p, s)\<close> returns an error
  (the pattern does not compile) and \<open>Some matched\<close> otherwise; \<open>regexp_Compile p\<close> holds
  when \<^verbatim>\<open>regexp.Compile(p)\<close> returns no error.
\<close>

record regex_lib =
  regexp2_Compile :: "string \<Rightarrow> bool"
  regexp_MatchString :: "string \<Rightarrow> string \<Rightarrow> bool option"
  regexp_Compile :: "string \<Rightarrow> bool"
  regexp_ReplaceAllString :: "string \<Rightarrow> string \<Rightarrow> string \<Rightarrow> string"

subsection \<open>pkg/path/types.go\<close>

datatype SegmentType = SegmentTypeField | SegmentTypeArray

datatype SelectorType = SelectorTypeWildcard | SelectorTypeIndex | SelectorTypeCondition

text \<open>
  Modelled from the spec: types.go as given declares \<open>OpEqual\<close> and \<open>OpNotEqual\<close>; the
  constant \<open>OpRegex\<close> that parser.go and navigator.go use is missing from it. It is the
  operator RegexMatch of the spec's "Operator \<in> {Equal, NotEqual, RegexMatch}".
\<close>

datatype Operator = OpEqual | OpNotEqual | OpRegex

text \<open>\<^verbatim>\<open>Condition.Value\<close> is an \<^verbatim>\<open>interface{}\<close> that holds an int (index) or a string.\<close>

datatype cond_value = IntValue int | StringValue string

record Condition =
  cond_Field :: string
  cond_Op :: Operator
  cond_Value :: cond_value

text \<open>Pointer fields that may be nil are options.\<close>

record Selector =
  sel_Type :: SelectorType
  sel_Condition :: "Condition option"

record Segment =
  seg_Type :: SegmentType
  seg_Field :: string
  seg_Selector :: "Selector option"

record Path =
  Segments :: "Segment list"

subsection \<open>Strings: the library functions parser.go calls\<close>

definition byte_in :: "nat \<Rightarrow> nat \<Rightarrow> char \<Rightarrow> bool" where
  "byte_in lo hi c = (lo \<le> of_char c \<and> of_char c \<le> hi)"

text \<open>
  \<^verbatim>\<open>for _, ch := range pathStr\<close> decodes UTF-8. \<open>DecodeRuneWidth s\<close> is the number of
  bytes of the well-formed encoding at the head of \<open>s\<close>, and 0 where Go yields
  \<^verbatim>\<open>utf8.RuneError\<close> and advances by one byte.
\<close>

fun DecodeRuneWidth :: "string \<Rightarrow> nat" where
  "DecodeRuneWidth [] = 0"
| "DecodeRuneWidth (b0 # bs) =
     (if of_char b0 < (128::nat) then 1
      else if byte_in 0xC2 0xDF b0 then
        (case bs of
           b1 # _ \<Rightarrow> if byte_in 0x80 0xBF b1 then 2 else 0
         | _ \<Rightarrow> 0)
      else if byte_in 0xE0 0xEF b0 then
        (case bs of
           b1 # b2 # _ \<Rightarrow>
             if byte_in (if b0 = CHR 0xE0 then 0xA0 else 0x80)
                        (if b0 = CHR 0xED then 0x9F else 0xBF) b1
                \<and> byte_in 0x80 0xBF b2
             then 3 else 0
         | _ \<Rightarrow> 0)
      else if byte_in 0xF0 0xF4 b0 then
        (case bs of
           b1 # b2 # b3 # _ \<Rightarrow>
             if byte_in (if b0 = CHR 0xF0 then 0x90 else 0x80)
                        (if b0 = CHR 0xF4 then 0x8F else 0xBF) b1
                \<and> byte_in 0x80 0xBF b2 \<and> byte_in 0x80 0xBF b3
             then 4 else 0
         | _ \<Rightarrow> 0)
      else 0)"

text \<open>
  The runes a \<^verbatim>\<open>range\<close> loop yields, each as the bytes \<^verbatim>\<open>WriteRune\<close> writes for it:
  a well-formed encoding is written back as it stands, a bad byte as U+FFFD. \<open>skip\<close>
  counts the continuation bytes of the rune just yielded that are still to be passed.
\<close>

fun rangeRunes_from :: "nat \<Rightarrow> string \<Rightarrow> string list" where
  "rangeRunes_from skip [] = []"
| "rangeRunes_from skip (b # bs) =
     (if 0 < skip then rangeRunes_from (skip - 1) bs
      else if DecodeRuneWidth (b # bs) = 0 then
        [CHR 0xEF, CHR 0xBF, CHR 0xBD] # rangeRunes_from 0 bs
      else
        (b # take (DecodeRuneWidth (b # bs) - 1) bs)
          # rangeRunes_from (DecodeRuneWidth (b # bs) - 1) bs)"

definition rangeRunes :: "string \<Rightarrow> string list" where
  "rangeRunes s = rangeRunes_from 0 s"

definition strings_Contains :: "string \<Rightarrow> char \<Rightarrow> bool" where
  "strings_Contains s c = (c \<in> set s)"

text \<open>\<^verbatim>\<open>strings.Index\<close> for a one-byte substring; \<open>None\<close> is Go's \<open>-1\<close>.\<close>

definition strings_Index :: "string \<Rightarrow> char \<Rightarrow> nat option" where
  "strings_Index s c =
     (if c \<in> set s then Some (length (takeWhile (\<lambda>x. x \<noteq> c) s)) else None)"

text \<open>\<^verbatim>\<open>strings.SplitN(s, sep, 2)\<close> for a one-byte separator: one or two parts.\<close>

definition strings_SplitN2 :: "string \<Rightarrow> char \<Rightarrow> string list" where
  "strings_SplitN2 s c =
     (if c \<in> set s
      then [takeWhile (\<lambda>x. x \<noteq> c) s, tl (dropWhile (\<lambda>x. x \<noteq> c) s)]
      else [s])"

definition strings_HasPrefix :: "string \<Rightarrow> char \<Rightarrow> bool" where
  "strings_HasPrefix s c = (case s of [] \<Rightarrow> False | x # _ \<Rightarrow> x = c)"

definition strings_HasSuffix :: "string \<Rightarrow> char \<Rightarrow> bool" where
  "strings_HasSuffix s c = (s \<noteq> [] \<and> last s = c)"

text \<open>\<^verbatim>\<open>strings.Trim(s, cutset)\<close> for a one-byte cutset: strips every leading and trailing \<open>c\<close>.\<close>

definition strings_Trim :: "string \<Rightarrow> char \<Rightarrow> string" where
  "strings_Trim s c = rev (dropWhile (\<lambda>x. x = c) (rev (dropWhile (\<lambda>x. x = c) s)))"

definition isDigit :: "char \<Rightarrow> bool" where
  "isDigit c = byte_in 48 57 c"

fun digitsValue :: "nat \<Rightarrow> string \<Rightarrow> nat" where
  "digitsValue n [] = n"
| "digitsValue n (c # cs) = digitsValue (n * 10 + (of_char c - 48)) cs"

text \<open>
  \<^verbatim>\<open>strconv.Atoi\<close>: an optional sign, then one or more decimal digits, the value in the
  range of a 64-bit int; \<open>None\<close> is a returned error.
\<close>

definition Atoi :: "string \<Rightarrow> int option" where
  "Atoi s =
     (let ds = (case s of
                  [] \<Rightarrow> []
                | c # r \<Rightarrow> if c = CHR ''-'' \<or> c = CHR ''+'' then r else s)
      in if ds = [] \<or> \<not> list_all isDigit ds then None
         else
           (let n = int (digitsValue 0 ds);
                v = (if hd s = CHR ''-'' then - n else n)
            in if - (2 ^ 63) \<le> v \<and> v < 2 ^ 63 then Some v else None))"

subsection \<open>pkg/path/parser.go\<close>

datatype segment_error =
    NoOpeningBracket
  | NoClosingBracket
  | InvalidConditionSyntax
  | FieldNameEmpty
  | RegexPatternEmpty
  | InvalidRegexPattern
  | UnknownSelectorSyntax string

datatype parse_error = EmptyPath | InvalidSegment string segment_error

text \<open>The loop of \<^verbatim>\<open>splitPath\<close> over the runes, with its three variables.\<close>

fun splitPath_loop :: "string list \<Rightarrow> string list \<Rightarrow> string \<Rightarrow> bool \<Rightarrow> string list" where
  "splitPath_loop [] parts current inBracket =
     (if current \<noteq> [] then parts @ [current] else parts)"
| "splitPath_loop (ch # chs) parts current inBracket =
     (if ch = ''['' then splitPath_loop chs parts (current @ ch) True
      else if ch = '']'' then splitPath_loop chs parts (current @ ch) False
      else if ch = ''.'' then
        (if inBracket then splitPath_loop chs parts (current @ ch) inBracket
         else if current \<noteq> [] then splitPath_loop chs (parts @ [current]) [] inBracket
         else splitPath_loop chs parts current inBracket)
      else splitPath_loop chs parts (current @ ch) inBracket)"

definition splitPath :: "string \<Rightarrow> string list" where
  "splitPath pathStr = splitPath_loop (rangeRunes pathStr) [] [] False"

text \<open>
  \<^verbatim>\<open>findClosingBracket(s, start)\<close>: the bytes from \<open>start\<close> on, the index \<open>i\<close> and the flag
  \<open>inRegex\<close>; \<open>None\<close> is Go's \<open>-1\<close>.
\<close>

fun findClosingBracket_loop :: "string \<Rightarrow> nat \<Rightarrow> bool \<Rightarrow> nat option" where
  "findClosingBracket_loop [] i inRegex = None"
| "findClosingBracket_loop (ch # cs) i inRegex =
     (let inRegex' = (if ch = CHR ''@'' then \<not> inRegex else inRegex)
      in if ch = CHR '']'' \<and> \<not> inRegex' then Some i
         else findClosingBracket_loop cs (Suc i) inRegex')"

definition findClosingBracket :: "string \<Rightarrow> nat \<Rightarrow> nat option" where
  "findClosingBracket s start = findClosingBracket_loop (drop start s) start False"

definition parseSelector :: "regex_lib \<Rightarrow> string \<Rightarrow> segment_error + Selector" where
  "parseSelector L selectorStr =
     (if selectorStr = ''*'' then Inr \<lparr>sel_Type = SelectorTypeWildcard, sel_Condition = None\<rparr>
      else if selectorStr = ''?'' then
        Inr \<lparr>sel_Type = SelectorTypeWildcard, sel_Condition = None\<rparr>
      else
        (case Atoi selectorStr of
           Some idx \<Rightarrow>
             Inr \<lparr>sel_Type = SelectorTypeIndex,
                  sel_Condition = Some \<lparr>cond_Field = ''_index'', cond_Op = OpEqual,
                                         cond_Value = IntValue idx\<rparr>\<rparr>
         | None \<Rightarrow>
             if strings_Contains selectorStr CHR ''='' then
               (case strings_SplitN2 selectorStr CHR ''='' of
                  [field, val] \<Rightarrow>
                    if field = [] then Inl FieldNameEmpty
                    else if strings_HasPrefix val CHR ''@'' \<and> strings_HasSuffix val CHR ''@'' then
                      (let pattern = strings_Trim val CHR ''@''
                       in if pattern = [] then Inl RegexPatternEmpty
                          else if \<not> regexp2_Compile L pattern then Inl InvalidRegexPattern
                          else
                            Inr \<lparr>sel_Type = SelectorTypeCondition,
                                 sel_Condition = Some \<lparr>cond_Field = field, cond_Op = OpRegex,
                                                        cond_Value = StringValue pattern\<rparr>\<rparr>)
                    else
                      Inr \<lparr>sel_Type = SelectorTypeCondition,
                           sel_Condition = Some \<lparr>cond_Field = field, cond_Op = OpEqual,
                                                  cond_Value = StringValue val\<rparr>\<rparr>
                | _ \<Rightarrow> Inl InvalidConditionSyntax)
             else Inl (UnknownSelectorSyntax selectorStr)))"

definition parseArraySegment :: "regex_lib \<Rightarrow> string \<Rightarrow> segment_error + Segment" where
  "parseArraySegment L part =
     (case strings_Index part CHR ''['' of
        None \<Rightarrow> Inl NoOpeningBracket
      | Some bracketStart \<Rightarrow>
          (let field = take bracketStart part
           in case findClosingBracket part (bracketStart + 1) of
                None \<Rightarrow> Inl NoClosingBracket
              | Some bracketEnd \<Rightarrow>
                  (let selectorStr = drop (bracketStart + 1) (take bracketEnd part)
                   in case parseSelector L selectorStr of
                        Inl err \<Rightarrow> Inl err
                      | Inr selector \<Rightarrow>
                          Inr \<lparr>seg_Type = SegmentTypeArray, seg_Field = field,
                               seg_Selector = Some selector\<rparr>)))"

definition parseSegment :: "regex_lib \<Rightarrow> string \<Rightarrow> segment_error + Segment" where
  "parseSegment L part =
     (if strings_Contains part CHR ''['' then parseArraySegment L part
      else Inr \<lparr>seg_Type = SegmentTypeField, seg_Field = part, seg_Selector = None\<rparr>)"

text \<open>The loop of \<^verbatim>\<open>Parse\<close> over the parts, appending to \<open>segments\<close>.\<close>

fun Parse_loop :: "regex_lib \<Rightarrow> string list \<Rightarrow> Segment list \<Rightarrow> parse_error + Segment list" where
  "Parse_loop L [] segments = Inr segments"
| "Parse_loop L (part # parts) segments =
     (case parseSegment L part of
        Inl err \<Rightarrow> Inl (InvalidSegment part err)
      | Inr seg \<Rightarrow> Parse_loop L parts (segments @ [seg]))"

definition Parse :: "regex_lib \<Rightarrow> string \<Rightarrow> parse_error + Path" where
  "Parse L pathStr =
     (if pathStr = [] then Inl EmptyPath
      else
        (case Parse_loop L (splitPath pathStr) [] of
           Inl err \<Rightarrow> Inl err
         | Inr segments \<Rightarrow> Inr \<lparr>Segments = segments\<rparr>))"

subsection \<open>The tree: yaml.v3 nodes in a heap\<close>

text \<open>
  The tree is made of \<^verbatim>\<open>*yaml.Node\<close> pointers, mutated in place and compared by identity,
  so nodes live in a heap: an address is an index into the list of nodes. An address
  outside the list points to no node and stands for a nil pointer: dereferencing it
  panics. Of a node only the fields the packages read or write are kept.
\<close>

type_synonym addr = nat

datatype kind = DocumentNode | SequenceNode | MappingNode | ScalarNode | AliasNode

record node =
  Kind :: kind
  Tag :: string
  Value :: string
  Content :: "addr list"
  Alias :: "addr option"

type_synonym heap = "node list"

definition deref :: "heap \<Rightarrow> addr \<Rightarrow> node option" where
  "deref h a = (if a < length h then Some (h ! a) else None)"

subsection \<open>pkg/path/navigator.go\<close>

datatype nav_error =
    EmptyDocument
  | ExpectedMappingNode kind
  | FieldNotFound string
  | ExpectedMappingForArray
  | ArrayFieldNotFound string
  | FieldNotArray string
  | IndexOutOfRange int
  | NoElementsMatchCondition

text \<open>
  A method of the Navigator takes the heap and returns it with its outcome. The default
  branches of the switches on the segment type and on the selector type ("unknown
  segment type", "unknown selector type") cannot be reached with the two enumerations.
\<close>

type_synonym 'a nav = "heap \<Rightarrow> (nav_error, 'a) outcome \<times> heap"

text \<open>
  The loop \<^verbatim>\<open>for i := 0; i < len(node.Content); i += 2\<close> that findField, findArray and
  matchWhere each run to find the value stored under a key: the first key wins. A mapping
  whose Content has odd length panics at \<^verbatim>\<open>node.Content[i+1]\<close>.
\<close>

datatype lookup = LookupPanic | NotFound | Found addr

fun lookupKey :: "heap \<Rightarrow> string \<Rightarrow> addr list \<Rightarrow> lookup" where
  "lookupKey h name [] = NotFound"
| "lookupKey h name [keyNode] = LookupPanic"
| "lookupKey h name (keyNode # valueNode # pairs) =
     (case deref h keyNode of
        None \<Rightarrow> LookupPanic
      | Some k \<Rightarrow> if Value k = name then Found valueNode else lookupKey h name pairs)"

fun natDigits :: "nat \<Rightarrow> string" where
  "natDigits n =
     (if n < 10 then [char_of (48 + n)]
      else natDigits (n div 10) @ [char_of (48 + n mod 10)])"

declare natDigits.simps [simp del]

text \<open>\<^verbatim>\<open>fmt.Sprint\<close> of an int and of the value of a condition.\<close>

definition Sprint_int :: "int \<Rightarrow> string" where
  "Sprint_int i = (if i < 0 then CHR ''-'' # natDigits (nat (- i)) else natDigits (nat i))"

definition Sprint :: "cond_value \<Rightarrow> string" where
  "Sprint v = (case v of IntValue i \<Rightarrow> Sprint_int i | StringValue s \<Rightarrow> s)"

text \<open>
  The loop of \<^verbatim>\<open>matchCondition\<close>. At a key equal to the condition's field the switch
  returns for \<open>OpEqual\<close> and \<open>OpRegex\<close>; no other operator has a case, and the loop goes on.
  An error of \<^verbatim>\<open>regexp.MatchString\<close> is answered with \<open>false\<close>.
\<close>

fun matchCondition_loop ::
  "regex_lib \<Rightarrow> heap \<Rightarrow> Condition option \<Rightarrow> addr list \<Rightarrow> (nav_error, bool) outcome" where
  "matchCondition_loop L h cond [] = Ok False"
| "matchCondition_loop L h cond [keyNode] = Panic"
| "matchCondition_loop L h cond (keyNode # valueNode # pairs) =
     (case deref h keyNode of
        None \<Rightarrow> Panic
      | Some k \<Rightarrow>
          (case cond of
             None \<Rightarrow> Panic
           | Some c \<Rightarrow>
               if Value k = cond_Field c then
                 (case cond_Op c of
                    OpEqual \<Rightarrow>
                      (case deref h valueNode of
                         None \<Rightarrow> Panic
                       | Some v \<Rightarrow> Ok (Value v = Sprint (cond_Value c)))
                  | OpRegex \<Rightarrow>
                      (case cond_Value c of
                         IntValue i \<Rightarrow> Panic
                       | StringValue pattern \<Rightarrow>
                           (case deref h valueNode of
                              None \<Rightarrow> Panic
                            | Some v \<Rightarrow>
                                Ok (regexp_MatchString L pattern (Value v) = Some True)))
                  | OpNotEqual \<Rightarrow> matchCondition_loop L h cond pairs)
               else matchCondition_loop L h cond pairs))"

definition matchCondition :: "regex_lib \<Rightarrow> addr \<Rightarrow> Condition option \<Rightarrow> bool nav" where
  "matchCondition L node cond h =
     (case deref h node of
        None \<Rightarrow> (Panic, h)
      | Some n \<Rightarrow>
          if Kind n \<noteq> MappingNode then (Ok False, h)
          else (matchCondition_loop L h cond (Content n), h))"

text \<open>
  The Wildcard loop of \<^verbatim>\<open>findArray\<close>: \<open>rec\<close> is the recursive call of findRecursive on
  the next segment. An element whose call returns an error is passed over.
\<close>

fun wildcard_loop ::
  "(addr \<Rightarrow> Segment list \<Rightarrow> addr list nav) \<Rightarrow> addr list \<Rightarrow> Segment list \<Rightarrow> addr list
     \<Rightarrow> addr list nav" where
  "wildcard_loop rec [] rest results h = (Ok results, h)"
| "wildcard_loop rec (elem # elems) rest results h =
     (case rec elem rest h of
        (Ok matched, h') \<Rightarrow> wildcard_loop rec elems rest (results @ matched) h'
      | (Err err, h') \<Rightarrow> wildcard_loop rec elems rest results h'
      | (Panic, h') \<Rightarrow> (Panic, h')
      | (Timeout, h') \<Rightarrow> (Timeout, h'))"

text \<open>The Condition loop of \<^verbatim>\<open>findArray\<close>.\<close>

fun condition_loop ::
  "regex_lib \<Rightarrow> (addr \<Rightarrow> Segment list \<Rightarrow> addr list nav) \<Rightarrow> Condition option \<Rightarrow> addr list
     \<Rightarrow> Segment list \<Rightarrow> addr list \<Rightarrow> addr list nav" where
  "condition_loop L rec cond [] rest results h = (Ok results, h)"
| "condition_loop L rec cond (elem # elems) rest results h =
     (case matchCondition L elem cond h of
        (Ok True, h1) \<Rightarrow>
          (case rec elem rest h1 of
             (Ok matched, h2) \<Rightarrow> condition_loop L rec cond elems rest (results @ matched) h2
           | (Err err, h2) \<Rightarrow> condition_loop L rec cond elems rest results h2
           | (Panic, h2) \<Rightarrow> (Panic, h2)
           | (Timeout, h2) \<Rightarrow> (Timeout, h2))
      | (Ok False, h1) \<Rightarrow> condition_loop L rec cond elems rest results h1
      | (Err err, h1) \<Rightarrow> (Err err, h1)
      | (Panic, h1) \<Rightarrow> (Panic, h1)
      | (Timeout, h1) \<Rightarrow> (Timeout, h1))"

definition findField ::
  "(addr \<Rightarrow> Segment list \<Rightarrow> addr list nav) \<Rightarrow> addr \<Rightarrow> Segment \<Rightarrow> Segment list
     \<Rightarrow> addr list nav" where
  "findField rec node segment rest h =
     (case deref h node of
        None \<Rightarrow> (Panic, h)
      | Some n \<Rightarrow>
          if Kind n \<noteq> MappingNode then (Err (ExpectedMappingNode (Kind n)), h)
          else
            (case lookupKey h (seg_Field segment) (Content n) of
               LookupPanic \<Rightarrow> (Panic, h)
             | Found valueNode \<Rightarrow> rec valueNode rest h
             | NotFound \<Rightarrow> (Err (FieldNotFound (seg_Field segment)), h)))"

definition findArray ::
  "regex_lib \<Rightarrow> (addr \<Rightarrow> Segment list \<Rightarrow> addr list nav) \<Rightarrow> addr \<Rightarrow> Segment \<Rightarrow> Segment list
     \<Rightarrow> addr list nav" where
  "findArray L rec node segment rest h =
     (case deref h node of
        None \<Rightarrow> (Panic, h)
      | Some n \<Rightarrow>
          if Kind n \<noteq> MappingNode then (Err ExpectedMappingForArray, h)
          else
            (case lookupKey h (seg_Field segment) (Content n) of
               LookupPanic \<Rightarrow> (Panic, h)
             | NotFound \<Rightarrow> (Err (ArrayFieldNotFound (seg_Field segment)), h)
             | Found arrayNode \<Rightarrow>
                 (case deref h arrayNode of
                    None \<Rightarrow> (Err (ArrayFieldNotFound (seg_Field segment)), h)
                  | Some arr \<Rightarrow>
                      if Kind arr \<noteq> SequenceNode then
                        (Err (FieldNotArray (seg_Field segment)), h)
                      else
                        (case seg_Selector segment of
                           None \<Rightarrow> (Panic, h)
                         | Some selector \<Rightarrow>
                             (case sel_Type selector of
                                SelectorTypeWildcard \<Rightarrow>
                                  wildcard_loop rec (Content arr) rest [] h
                              | SelectorTypeIndex \<Rightarrow>
                                  (case sel_Condition selector of
                                     None \<Rightarrow> (Panic, h)
                                   | Some c \<Rightarrow>
                                       (case cond_Value c of
                                          StringValue s \<Rightarrow> (Panic, h)
                                        | IntValue idx \<Rightarrow>
                                            if idx < 0 \<or> idx \<ge> int (length (Content arr))
                                            then (Err (IndexOutOfRange idx), h)
                                            else rec (Content arr ! nat idx) rest h))
                              | SelectorTypeCondition \<Rightarrow>
                                  (case condition_loop L rec (sel_Condition selector)
                                          (Content arr) rest [] h of
                                     (Ok results, h') \<Rightarrow>
                                       if results = [] then (Err NoElementsMatchCondition, h')
                                       else (Ok results, h')
                                   | (Err err, h') \<Rightarrow> (Err err, h')
                                   | (Panic, h') \<Rightarrow> (Panic, h')
                                   | (Timeout, h') \<Rightarrow> (Timeout, h')))))))"

text \<open>
  \<^verbatim>\<open>findRecursive(node, segments, segmentIdx)\<close>. The pair of \<open>segments\<close> and \<open>segmentIdx\<close>
  is the list of the segments from \<open>segmentIdx\<close> on. The first argument bounds the depth
  of the recursion: a Document or Alias node is unwrapped without a segment being used
  up, and nothing in the code bounds a chain of them.
\<close>

primrec findRecursive :: "regex_lib \<Rightarrow> nat \<Rightarrow> addr \<Rightarrow> Segment list \<Rightarrow> addr list nav" where
  "findRecursive L 0 node segments h = (Timeout, h)"
| "findRecursive L (Suc fuel) node segments h =
     (case segments of
        [] \<Rightarrow> (Ok [node], h)
      | segment # rest \<Rightarrow>
          (case deref h node of
             None \<Rightarrow> (Panic, h)
           | Some n \<Rightarrow>
               if Kind n = DocumentNode then
                 (case Content n of
                    [] \<Rightarrow> (Err EmptyDocument, h)
                  | child # others \<Rightarrow> findRecursive L fuel child segments h)
               else if Kind n = AliasNode then
                 (case Alias n of
                    None \<Rightarrow> (Panic, h)
                  | Some target \<Rightarrow> findRecursive L fuel target segments h)
               else
                 (case seg_Type segment of
                    SegmentTypeField \<Rightarrow> findField (findRecursive L fuel) node segment rest h
                  | SegmentTypeArray \<Rightarrow>
                      findArray L (findRecursive L fuel) node segment rest h)))"

definition Find :: "regex_lib \<Rightarrow> nat \<Rightarrow> addr \<Rightarrow> Path \<Rightarrow> addr list nav" where
  "Find L fuel root path h = findRecursive L fuel root (Segments path) h"

subsection \<open>The where-clause filter (FindWithWhere, matchWhere)\<close>

text \<open>
  The two methods of the Navigator that \<^verbatim>\<open>delete\<close> calls, with the type WhereCondition.
  \<^verbatim>\<open>regexp.MatchString\<close> is called on the name only when NameRegex is set.
\<close>

record WhereCondition =
  NameRegex :: string
  NameNotIn :: "string list"
  NameIn :: "string list"

definition matchWhere :: "regex_lib \<Rightarrow> addr \<Rightarrow> WhereCondition \<Rightarrow> bool nav" where
  "matchWhere L node wh h =
     (case deref h node of
        None \<Rightarrow> (Panic, h)
      | Some n \<Rightarrow>
          if Kind n \<noteq> MappingNode then (Ok False, h)
          else
            (case lookupKey h ''name'' (Content n) of
               LookupPanic \<Rightarrow> (Panic, h)
             | NotFound \<Rightarrow> (Ok False, h)
             | Found valueNode \<Rightarrow>
                 (case deref h valueNode of
                    None \<Rightarrow> (Panic, h)
                  | Some v \<Rightarrow>
                      if Value v = [] then (Ok False, h)
                      else if NameRegex wh \<noteq> []
                              \<and> regexp_MatchString L (NameRegex wh) (Value v) \<noteq> Some True
                      then (Ok False, h)
                      else if NameNotIn wh \<noteq> [] \<and> Value v \<in> set (NameNotIn wh)
                      then (Ok False, h)
                      else if NameIn wh \<noteq> [] \<and> Value v \<notin> set (NameIn wh)
                      then (Ok False, h)
                      else (Ok True, h))))"

fun where_loop :: "regex_lib \<Rightarrow> WhereCondition \<Rightarrow> addr list \<Rightarrow> addr list \<Rightarrow> addr list nav" where
  "where_loop L wh [] results h = (Ok results, h)"
| "where_loop L wh (node # nodes) results h =
     (case matchWhere L node wh h of
        (Ok True, h') \<Rightarrow> where_loop L wh nodes (results @ [node]) h'
      | (Ok False, h') \<Rightarrow> where_loop L wh nodes results h'
      | (Err err, h') \<Rightarrow> (Err err, h')
      | (Panic, h') \<Rightarrow> (Panic, h')
      | (Timeout, h') \<Rightarrow> (Timeout, h'))"

definition FindWithWhere ::
  "regex_lib \<Rightarrow> nat \<Rightarrow> addr \<Rightarrow> Path \<Rightarrow> WhereCondition option \<Rightarrow> addr list nav" where
  "FindWithWhere L fuel root path wh h =
     (case Find L fuel root path h of
        (Ok candidates, h') \<Rightarrow>
          (case wh of
             None \<Rightarrow> (Ok candidates, h')
           | Some w \<Rightarrow> where_loop L w candidates [] h')
      | (Err err, h') \<Rightarrow> (Err err, h')
      | (Panic, h') \<Rightarrow> (Panic, h')
      | (Timeout, h') \<Rightarrow> (Timeout, h'))"

subsection \<open>pkg/engine: rules and the value of a rule\<close>

text \<open>
  \<^verbatim>\<open>Rule.Value\<close> is an \<^verbatim>\<open>interface{}\<close> filled by the YAML decoder: nil, a bool, an int, a
  float, a string, a mapping or a sequence. A float is kept as the text the encoder
  writes for it.
\<close>

datatype yvalue =
    VNull
  | VBool bool
  | VInt int
  | VFloat string
  | VString string
  | VMap "(string \<times> yvalue) list"
  | VSeq "yvalue list"

record Rule =
  rule_Action :: string
  rule_Path :: string
  rule_Value :: yvalue
  rule_Pattern :: string
  rule_Where :: "WhereCondition option"
  rule_ContinueOnNotFound :: bool

definition ActionReplace :: string where "ActionReplace = ''replace''"
definition ActionSet :: string where "ActionSet = ''set''"
definition ActionDelete :: string where "ActionDelete = ''delete''"
definition ActionRegexReplace :: string where "ActionRegexReplace = ''regex_replace''"

datatype engine_error =
    ParsePathError parse_error
  | FindNodesError nav_error
  | NoNodesFound
  | PatternRequired
  | CompileRegexError
  | ReplacementMustBeString
  | UnknownAction string

type_synonym 'a eng = "heap \<Rightarrow> (engine_error, 'a) outcome \<times> heap"

definition scalar :: "string \<Rightarrow> string \<Rightarrow> node" where
  "scalar tag v = \<lparr>Kind = ScalarNode, Tag = tag, Value = v, Content = [], Alias = None\<rparr>"

definition Sprint_bool :: "bool \<Rightarrow> string" where
  "Sprint_bool b = (if b then ''true'' else ''false'')"

text \<open>
  Modelled from the spec: \<^verbatim>\<open>(*yaml.Node).Encode\<close> belongs to the yaml.v3 library, which is
  not part of the repository. It "builds a replacement node from the rule's tagged value
  (recursively mirroring mappings/sequences/scalars)": the result is the node written to
  \<^verbatim>\<open>*newNode\<close>, and its descendants are new nodes, allocated at the end of the heap. The
  members of a mapping are taken in the order of the list. On these values the encoder
  returns no error, so the branch \<^verbatim>\<open>encode value: ...\<close> of replace and set is not taken.
\<close>

fun Encode :: "yvalue \<Rightarrow> heap \<Rightarrow> node \<times> heap"
  and Encode_seq :: "yvalue list \<Rightarrow> heap \<Rightarrow> addr list \<times> heap"
  and Encode_map :: "(string \<times> yvalue) list \<Rightarrow> heap \<Rightarrow> addr list \<times> heap" where
  "Encode VNull h = (scalar ''!!null'' ''null'', h)"
| "Encode (VBool b) h = (scalar ''!!bool'' (Sprint_bool b), h)"
| "Encode (VInt i) h = (scalar ''!!int'' (Sprint_int i), h)"
| "Encode (VFloat s) h = (scalar ''!!float'' s, h)"
| "Encode (VString s) h = (scalar ''!!str'' s, h)"
| "Encode (VSeq vs) h =
     (case Encode_seq vs h of
        (cs, h') \<Rightarrow>
          (\<lparr>Kind = SequenceNode, Tag = ''!!seq'', Value = [], Content = cs, Alias = None\<rparr>, h'))"
| "Encode (VMap kvs) h =
     (case Encode_map kvs h of
        (cs, h') \<Rightarrow>
          (\<lparr>Kind = MappingNode, Tag = ''!!map'', Value = [], Content = cs, Alias = None\<rparr>, h'))"
| "Encode_seq [] h = ([], h)"
| "Encode_seq (v # vs) h =
     (case Encode v h of
        (n, h1) \<Rightarrow>
          (case Encode_seq vs (h1 @ [n]) of
             (cs, h2) \<Rightarrow> (length h1 # cs, h2)))"
| "Encode_map [] h = ([], h)"
| "Encode_map (kv # kvs) h =
     (case Encode (snd kv) (h @ [scalar ''!!str'' (fst kv)]) of
        (n, h1) \<Rightarrow>
          (case Encode_map kvs (h1 @ [n]) of
             (cs, h2) \<Rightarrow> (length h # length h1 # cs, h2)))"

subsection \<open>pkg/engine: replace, set, delete, regexReplace, Apply\<close>

text \<open>The loop \<^verbatim>\<open>for _, node := range nodes { *node = *newNode }\<close>.\<close>

fun replace_loop :: "addr list \<Rightarrow> node \<Rightarrow> unit eng" where
  "replace_loop [] newNode h = (Ok (), h)"
| "replace_loop (node # nodes) newNode h =
     (if node < length h then replace_loop nodes newNode (h[node := newNode])
      else (Panic, h))"

definition replace :: "regex_lib \<Rightarrow> nat \<Rightarrow> addr \<Rightarrow> Rule \<Rightarrow> unit eng" where
  "replace L fuel root rule h =
     (case Parse L (rule_Path rule) of
        Inl err \<Rightarrow> (Err (ParsePathError err), h)
      | Inr p \<Rightarrow>
          (case Find L fuel root p h of
             (Err err, h1) \<Rightarrow> (Err (FindNodesError err), h1)
           | (Panic, h1) \<Rightarrow> (Panic, h1)
           | (Timeout, h1) \<Rightarrow> (Timeout, h1)
           | (Ok nodes, h1) \<Rightarrow>
               if nodes = [] then (Err NoNodesFound, h1)
               else
                 (case Encode (rule_Value rule) h1 of
                    (newNode, h2) \<Rightarrow> replace_loop nodes newNode h2)))"

text \<open>The loop of \<^verbatim>\<open>set\<close> with its type switch on the value.\<close>

fun set_loop :: "addr list \<Rightarrow> yvalue \<Rightarrow> unit eng" where
  "set_loop [] v h = (Ok (), h)"
| "set_loop (node # nodes) v h =
     (case deref h node of
        None \<Rightarrow> (Panic, h)
      | Some n \<Rightarrow>
          (case v of
             VString s \<Rightarrow>
               set_loop nodes v (h[node := n\<lparr>Value := s, Kind := ScalarNode, Tag := ''!!str''\<rparr>])
           | VInt i \<Rightarrow>
               set_loop nodes v
                 (h[node := n\<lparr>Value := Sprint_int i, Kind := ScalarNode, Tag := ''!!int''\<rparr>])
           | VBool b \<Rightarrow>
               set_loop nodes v
                 (h[node := n\<lparr>Value := Sprint_bool b, Kind := ScalarNode, Tag := ''!!bool''\<rparr>])
           | _ \<Rightarrow>
               (case Encode v h of
                  (newNode, h') \<Rightarrow> set_loop nodes v (h'[node := newNode]))))"

definition set_rule :: "regex_lib \<Rightarrow> nat \<Rightarrow> addr \<Rightarrow> Rule \<Rightarrow> unit eng" where
  "set_rule L fuel root rule h =
     (case Parse L (rule_Path rule) of
        Inl err \<Rightarrow> (Err (ParsePathError err), h)
      | Inr p \<Rightarrow>
          (case Find L fuel root p h of
             (Err err, h1) \<Rightarrow> (Err (FindNodesError err), h1)
           | (Panic, h1) \<Rightarrow> (Panic, h1)
           | (Timeout, h1) \<Rightarrow> (Timeout, h1)
           | (Ok nodes, h1) \<Rightarrow>
               if nodes = [] then (Err NoNodesFound, h1)
               else set_loop nodes (rule_Value rule) h1))"

text \<open>
  \<^verbatim>\<open>deleteNodeRecursive\<close>: the loops over a Document's and a Sequence's children range over
  the Content read at the start; \<open>rec\<close> is the recursive call.
\<close>

fun document_loop :: "(addr \<Rightarrow> addr \<Rightarrow> unit eng) \<Rightarrow> addr list \<Rightarrow> addr \<Rightarrow> unit eng" where
  "document_loop rec [] target h = (Ok (), h)"
| "document_loop rec (child # children) target h =
     (case rec child target h of
        (Ok u, h') \<Rightarrow> document_loop rec children target h'
      | (Err err, h') \<Rightarrow> (Err err, h')
      | (Panic, h') \<Rightarrow> (Panic, h')
      | (Timeout, h') \<Rightarrow> (Timeout, h'))"

definition set_Content :: "addr \<Rightarrow> addr list \<Rightarrow> heap \<Rightarrow> heap" where
  "set_Content node newContent h = h[node := (h ! node)\<lparr>Content := newContent\<rparr>]"

fun sequence_loop ::
  "(addr \<Rightarrow> addr \<Rightarrow> unit eng) \<Rightarrow> addr \<Rightarrow> addr list \<Rightarrow> addr \<Rightarrow> addr list \<Rightarrow> unit eng" where
  "sequence_loop rec node [] target newContent h = (Ok (), set_Content node newContent h)"
| "sequence_loop rec node (elem # elems) target newContent h =
     (if elem = target then sequence_loop rec node elems target newContent h
      else
        (case rec elem target h of
           (Ok u, h') \<Rightarrow> sequence_loop rec node elems target (newContent @ [elem]) h'
         | (Err err, h') \<Rightarrow> (Err err, h')
         | (Panic, h') \<Rightarrow> (Panic, h')
         | (Timeout, h') \<Rightarrow> (Timeout, h')))"

text \<open>
  The Mapping loop \<^verbatim>\<open>for i := 0; i < len(node.Content); i += 2\<close> reads \<^verbatim>\<open>node.Content\<close>
  again at every iteration, after the recursive calls have run; its iterations are
  counted against the bound as well.
\<close>

primrec mapping_loop ::
  "nat \<Rightarrow> (addr \<Rightarrow> addr \<Rightarrow> unit eng) \<Rightarrow> addr \<Rightarrow> addr \<Rightarrow> nat \<Rightarrow> addr list \<Rightarrow> unit eng" where
  "mapping_loop 0 rec node target i newContent h = (Timeout, h)"
| "mapping_loop (Suc fuel) rec node target i newContent h =
     (case deref h node of
        None \<Rightarrow> (Panic, h)
      | Some n \<Rightarrow>
          if i \<ge> length (Content n) then (Ok (), set_Content node newContent h)
          else if i + 1 \<ge> length (Content n) then (Panic, h)
          else if Content n ! (i + 1) = target then
            mapping_loop fuel rec node target (i + 2) newContent h
          else
            (case rec (Content n ! (i + 1)) target h of
               (Ok u, h') \<Rightarrow>
                 mapping_loop fuel rec node target (i + 2)
                   (newContent @ [Content n ! i, Content n ! (i + 1)]) h'
             | (Err err, h') \<Rightarrow> (Err err, h')
             | (Panic, h') \<Rightarrow> (Panic, h')
             | (Timeout, h') \<Rightarrow> (Timeout, h')))"

primrec deleteNodeRecursive :: "nat \<Rightarrow> addr \<Rightarrow> addr \<Rightarrow> unit eng" where
  "deleteNodeRecursive 0 node target h = (Timeout, h)"
| "deleteNodeRecursive (Suc fuel) node target h =
     (case deref h node of
        None \<Rightarrow> (Panic, h)
      | Some n \<Rightarrow>
          if Kind n = DocumentNode then
            document_loop (deleteNodeRecursive fuel) (Content n) target h
          else if Kind n = MappingNode then
            mapping_loop fuel (deleteNodeRecursive fuel) node target 0 [] h
          else if Kind n = SequenceNode then
            sequence_loop (deleteNodeRecursive fuel) node (Content n) target [] h
          else (Ok (), h))"

definition deleteNode :: "nat \<Rightarrow> addr \<Rightarrow> addr \<Rightarrow> unit eng" where
  "deleteNode fuel root target h = deleteNodeRecursive fuel root target h"

fun delete_loop :: "nat \<Rightarrow> addr \<Rightarrow> addr list \<Rightarrow> unit eng" where
  "delete_loop fuel root [] h = (Ok (), h)"
| "delete_loop fuel root (node # nodes) h =
     (case deleteNode fuel root node h of
        (Ok u, h') \<Rightarrow> delete_loop fuel root nodes h'
      | (Err err, h') \<Rightarrow> (Err err, h')
      | (Panic, h') \<Rightarrow> (Panic, h')
      | (Timeout, h') \<Rightarrow> (Timeout, h'))"

definition delete :: "regex_lib \<Rightarrow> nat \<Rightarrow> addr \<Rightarrow> Rule \<Rightarrow> unit eng" where
  "delete L fuel root rule h =
     (case Parse L (rule_Path rule) of
        Inl err \<Rightarrow> (Err (ParsePathError err), h)
      | Inr p \<Rightarrow>
          (case FindWithWhere L fuel root p (rule_Where rule) h of
             (Err err, h1) \<Rightarrow> (Err (FindNodesError err), h1)
           | (Panic, h1) \<Rightarrow> (Panic, h1)
           | (Timeout, h1) \<Rightarrow> (Timeout, h1)
           | (Ok nodes, h1) \<Rightarrow>
               if nodes = [] then (Ok (), h1)
               else delete_loop fuel root nodes h1))"

fun regexReplace_loop :: "regex_lib \<Rightarrow> string \<Rightarrow> string \<Rightarrow> addr list \<Rightarrow> unit eng" where
  "regexReplace_loop L pattern replacement [] h = (Ok (), h)"
| "regexReplace_loop L pattern replacement (node # nodes) h =
     (case deref h node of
        None \<Rightarrow> (Panic, h)
      | Some n \<Rightarrow>
          if Kind n \<noteq> ScalarNode then regexReplace_loop L pattern replacement nodes h
          else
            regexReplace_loop L pattern replacement nodes
              (h[node := n\<lparr>Value := regexp_ReplaceAllString L pattern (Value n) replacement\<rparr>]))"

definition regexReplace :: "regex_lib \<Rightarrow> nat \<Rightarrow> addr \<Rightarrow> Rule \<Rightarrow> unit eng" where
  "regexReplace L fuel root rule h =
     (case Parse L (rule_Path rule) of
        Inl err \<Rightarrow> (Err (ParsePathError err), h)
      | Inr p \<Rightarrow>
          (case Find L fuel root p h of
             (Err err, h1) \<Rightarrow> (Err (FindNodesError err), h1)
           | (Panic, h1) \<Rightarrow> (Panic, h1)
           | (Timeout, h1) \<Rightarrow> (Timeout, h1)
           | (Ok nodes, h1) \<Rightarrow>
               if nodes = [] then (Err NoNodesFound, h1)
               else if rule_Pattern rule = [] then (Err PatternRequired, h1)
               else if \<not> regexp_Compile L (rule_Pattern rule) then (Err CompileRegexError, h1)
               else
                 (case rule_Value rule of
                    VString replacement \<Rightarrow>
                      regexReplace_loop L (rule_Pattern rule) replacement nodes h1
                  | _ \<Rightarrow> (Err ReplacementMustBeString, h1))))"

definition Apply :: "regex_lib \<Rightarrow> nat \<Rightarrow> addr \<Rightarrow> Rule \<Rightarrow> unit eng" where
  "Apply L fuel root rule h =
     (if rule_Action rule = ActionReplace then replace L fuel root rule h
      else if rule_Action rule = ActionSet then set_rule L fuel root rule h
      else if rule_Action rule = ActionDelete then delete L fuel root rule h
      else if rule_Action rule = ActionRegexReplace then regexReplace L fuel root rule h
      else (Err (UnknownAction (rule_Action rule)), h))"

subsection \<open>Concrete trees and rules\<close>

text \<open>
  An instance of the library parameters, for the closed examples: regexp2 compiles every
  pattern; the standard regexp has no look-ahead and returns an error on the pattern of
  the README's delete example, and this instance lets it match nothing else.
\<close>

definition readme_pattern :: string where
  "readme_pattern = ''^xxx_(?!(foo1|foo2)$).*''"

definition example_lib :: regex_lib where
  "example_lib =
     \<lparr>regexp2_Compile = (\<lambda>p. True),
      regexp_MatchString = (\<lambda>p s. if p = readme_pattern then None else Some False),
      regexp_Compile = (\<lambda>p. p \<noteq> readme_pattern),
      regexp_ReplaceAllString = (\<lambda>p s r. s)\<rparr>"

definition mapping :: "addr list \<Rightarrow> node" where
  "mapping cs = \<lparr>Kind = MappingNode, Tag = ''!!map'', Value = [], Content = cs, Alias = None\<rparr>"

definition sequence :: "addr list \<Rightarrow> node" where
  "sequence cs = \<lparr>Kind = SequenceNode, Tag = ''!!seq'', Value = [], Content = cs, Alias = None\<rparr>"

definition document :: "addr list \<Rightarrow> node" where
  "document cs = \<lparr>Kind = DocumentNode, Tag = [], Value = [], Content = cs, Alias = None\<rparr>"

definition str :: "string \<Rightarrow> node" where
  "str v = scalar ''!!str'' v"

text \<open>
  Scenario A: \<^verbatim>\<open>spec: {containers: [{name: nginx, image: old}, {name: other, image: x}]}\<close>.
  The root Document is node 0; the two containers are nodes 6 and 11.
\<close>

definition scenario_A :: heap where
  "scenario_A =
     [document [1], mapping [2, 3], str ''spec'', mapping [4, 5], str ''containers'',
      sequence [6, 11],
      mapping [7, 8, 9, 10], str ''name'', str ''nginx'', str ''image'', str ''old'',
      mapping [12, 13, 14, 15], str ''name'', str ''other'', str ''image'', str ''x'']"

text \<open>
  Scenario B: \<^verbatim>\<open>env: [{name: foo1}, {name: foo2}, {name: foo3}, {name: foo4}]\<close>. The
  Sequence is node 3; its elements are nodes 4, 7, 10 and 13.
\<close>

definition scenario_B :: heap where
  "scenario_B =
     [document [1], mapping [2, 3], str ''env'', sequence [4, 7, 10, 13],
      mapping [5, 6], str ''name'', str ''foo1'',
      mapping [8, 9], str ''name'', str ''foo2'',
      mapping [11, 12], str ''name'', str ''foo3'',
      mapping [14, 15], str ''name'', str ''foo4'']"

definition delete_rule :: "string \<Rightarrow> WhereCondition option \<Rightarrow> Rule" where
  "delete_rule path wh =
     \<lparr>rule_Action = ActionDelete, rule_Path = path, rule_Value = VNull, rule_Pattern = [],
      rule_Where = wh, rule_ContinueOnNotFound = False\<rparr>"

definition replace_rule :: "string \<Rightarrow> yvalue \<Rightarrow> Rule" where
  "replace_rule path v =
     \<lparr>rule_Action = ActionReplace, rule_Path = path, rule_Value = v, rule_Pattern = [],
      rule_Where = None, rule_ContinueOnNotFound = False\<rparr>"

text \<open>A Sequence under a Sequence: \<^verbatim>\<open>a: [{b: [{name: y}]}]\<close>, the root Mapping is node 0.\<close>

definition nested_sequences :: heap where
  "nested_sequences =
     [mapping [1, 2], str ''a'', sequence [3],
      mapping [4, 5], str ''b'', sequence [6],
      mapping [7, 8], str ''name'', str ''y'']"

text \<open>
  The tree of the README's delete example: \<^verbatim>\<open>env: [{name: xxx_foo1}, {name: xxx_bar}]\<close>,
  the root Mapping is node 0.
\<close>

definition readme_env :: heap where
  "readme_env =
     [mapping [1, 2], str ''env'', sequence [3, 6],
      mapping [4, 5], str ''name'', str ''xxx_foo1'',
      mapping [7, 8], str ''name'', str ''xxx_bar'']"

text \<open>
  A tree with an anchor and an alias to it:
  \<^verbatim>\<open>list: [{k: &p {k: c}}, *p]\<close>. The anchored Mapping is node 5, its member \<open>k\<close> is node 7,
  and node 8 is the Alias node.
\<close>

definition alias_to :: "addr \<Rightarrow> node" where
  "alias_to target =
     \<lparr>Kind = AliasNode, Tag = [], Value = ''p'', Content = [], Alias = Some target\<rparr>"

definition aliased_parent :: heap where
  "aliased_parent =
     [mapping [1, 2], str ''list'', sequence [3, 8],
      mapping [4, 5], str ''k'',
      mapping [6, 7], str ''k'', str ''c'',
      alias_to 5]"

text \<open>The segments and selectors, as parseSegment and parseSelector build them.\<close>

definition field_segment :: "string \<Rightarrow> Segment" where
  "field_segment name = \<lparr>seg_Type = SegmentTypeField, seg_Field = name, seg_Selector = None\<rparr>"

definition array_segment :: "string \<Rightarrow> Selector \<Rightarrow> Segment" where
  "array_segment name selector =
     \<lparr>seg_Type = SegmentTypeArray, seg_Field = name, seg_Selector = Some selector\<rparr>"

definition wildcard_selector :: Selector where
  "wildcard_selector = \<lparr>sel_Type = SelectorTypeWildcard, sel_Condition = None\<rparr>"

definition index_selector :: "int \<Rightarrow> Selector" where
  "index_selector idx =
     \<lparr>sel_Type = SelectorTypeIndex,
      sel_Condition = Some \<lparr>cond_Field = ''_index'', cond_Op = OpEqual,
                             cond_Value = IntValue idx\<rparr>\<rparr>"

definition condition_selector :: "string \<Rightarrow> Operator \<Rightarrow> string \<Rightarrow> Selector" where
  "condition_selector name op v =
     \<lparr>sel_Type = SelectorTypeCondition,
      sel_Condition = Some \<lparr>cond_Field = name, cond_Op = op, cond_Value = StringValue v\<rparr>\<rparr>"

text \<open>
  What one element contributes to the result of a Wildcard or Condition selector: the
  nodes its call returns, and nothing when the call returns an error.
\<close>

definition element_matches ::
  "(addr \<Rightarrow> Segment list \<Rightarrow> addr list nav) \<Rightarrow> Segment list \<Rightarrow> heap \<Rightarrow> addr \<Rightarrow> addr list" where
  "element_matches rec rest h elem =
     (case fst (rec elem rest h) of Ok matched \<Rightarrow> matched | _ \<Rightarrow> [])"

definition returns :: "('e, 'a) outcome \<Rightarrow> bool" where
  "returns r = (case r of Timeout \<Rightarrow> False | Panic \<Rightarrow> False | _ \<Rightarrow> True)"

section \<open>Properties\<close>

subsection \<open>The navigator writes nothing\<close>

lemma matchCondition_heap: "snd (matchCondition L node cond h) = h"
  by (simp add: matchCondition_def split: option.splits)

lemma wildcard_loop_heap:
  assumes "\<And>e segs h'. snd (rec e segs h') = h'"
  shows "snd (wildcard_loop rec elems rest results h) = h"
proof (induction elems arbitrary: results)
  case Nil
  show ?case by simp
next
  case (Cons elem elems)
  obtain r h' where r: "rec elem rest h = (r, h')" by (cases "rec elem rest h")
  with assms [of elem rest h] have "h' = h" by simp
  with r Cons show ?case by (cases r) simp_all
qed

lemma condition_loop_heap:
  assumes "\<And>e segs h'. snd (rec e segs h') = h'"
  shows "snd (condition_loop L rec cond elems rest results h) = h"
proof (induction elems arbitrary: results)
  case Nil
  show ?case by simp
next
  case (Cons elem elems)
  obtain m h1 where m: "matchCondition L elem cond h = (m, h1)"
    by (cases "matchCondition L elem cond h")
  with matchCondition_heap [of L elem cond h] have h1: "h1 = h" by simp
  obtain r h2 where r: "rec elem rest h = (r, h2)" by (cases "rec elem rest h")
  with assms [of elem rest h] have h2: "h2 = h" by simp
  show ?case
  proof (cases m)
    case (Ok b)
    with m h1 r h2 Cons show ?thesis by (cases b; cases r) simp_all
  qed (use m h1 in simp_all)
qed

lemma findField_heap:
  assumes "\<And>e segs h'. snd (rec e segs h') = h'"
  shows "snd (findField rec node segment rest h) = h"
  using assms by (simp add: findField_def split: option.splits lookup.splits)

lemma findArray_heap:
  assumes "\<And>e segs h'. snd (rec e segs h') = h'"
  shows "snd (findArray L rec node segment rest h) = h"
proof -
  have c: "snd (condition_loop L rec cond elems rest [] h) = h" for cond elems
    using assms by (rule condition_loop_heap)
  have w: "snd (wildcard_loop rec elems rest [] h) = h" for elems
    using assms by (rule wildcard_loop_heap)
  have c': "snd (case condition_loop L rec cond elems rest [] h of
                   (Ok results, h') \<Rightarrow> if results = [] then (Err NoElementsMatchCondition, h') else (Ok results, h')
                 | (Err err, h') \<Rightarrow> (Err err, h')
                 | (Panic, h') \<Rightarrow> (Panic, h')
                 | (Timeout, h') \<Rightarrow> (Timeout, h')) = h" for cond elems
    using c [of cond elems] by (cases "condition_loop L rec cond elems rest [] h") (auto split: outcome.splits)
  show ?thesis
    unfolding findArray_def
    by (simp add: assms w c' split: option.splits lookup.splits SelectorType.splits cond_value.splits)
qed

lemma findRecursive_heap: "snd (findRecursive L fuel node segments h) = h"
proof (induction fuel arbitrary: node segments h)
  case 0
  show ?case by simp
next
  case (Suc fuel)
  show ?case
    by (simp add: Suc findField_heap findArray_heap split: list.splits option.splits SegmentType.splits)
qed

lemma matchWhere_heap: "snd (matchWhere L node wh h) = h"
  by (simp add: matchWhere_def split: option.splits lookup.splits)

lemma where_loop_heap: "snd (where_loop L wh nodes results h) = h"
proof (induction nodes arbitrary: results)
  case Nil
  show ?case by simp
next
  case (Cons node nodes)
  obtain m h1 where m: "matchWhere L node wh h = (m, h1)" by (cases "matchWhere L node wh h")
  with matchWhere_heap [of L node wh h] have "h1 = h" by simp
  with m Cons show ?case by (cases m) (auto split: bool.splits)
qed

lemma Find_heap: "snd (Find L fuel root path h) = h"
  by (simp add: Find_def findRecursive_heap)

lemma FindWithWhere_heap: "snd (FindWithWhere L fuel root path wh h) = h"
proof -
  obtain r h1 where r: "Find L fuel root path h = (r, h1)" by (cases "Find L fuel root path h")
  with Find_heap [of L fuel root path h] have "h1 = h" by simp
  with r show ?thesis
    by (cases r) (simp_all add: FindWithWhere_def where_loop_heap split: option.splits)
qed

text \<open>
  C10. For every tree, every address and every optional where-clause, Find and
  FindWithWhere are read-only queries: whatever they return (a node list, an error, a
  panic, or the exhaustion of the depth bound), the heap after the call is the heap
  before it, so no kind, tag, value or child list of any node is modified.
\<close>

theorem Find_and_FindWithWhere_read_only:
  "snd (Find L fuel root path h) = h \<and> snd (FindWithWhere L fuel root path wh h) = h"
  by (simp add: Find_heap FindWithWhere_heap)

subsection \<open>The path compiler\<close>

text \<open>
  C3. The claim is that Parse returns an error or an address with at least one segment.
  The guard of Parse rejects only the empty string: on the path \<open>.\<close> splitPath yields
  no part, and Parse succeeds with an address that has no segment.
\<close>

theorem Parse_dot_yields_no_segment:
  "splitPath ''.'' = [] \<and> Parse L ''.'' = Inr \<lparr>Segments = []\<rparr>"
  by (simp add: Parse_def splitPath_def rangeRunes_def)

text \<open>
  C6. The claim is that no \<open>.\<close> and no \<open>]\<close> inside a regex literal \<open>@...@\<close> splits or
  ends a segment. findClosingBracket does pass over a \<open>]\<close> inside \<open>@...@\<close>, but splitPath
  keeps no track of \<open>@\<close>: the \<open>]\<close> of a character class inside the literal clears its
  inBracket flag, and the next \<open>.\<close> of the pattern splits the path. The selector
  \<open>env[name=@[ab].c@]\<close> is cut in two and Parse fails.
\<close>

theorem splitPath_splits_inside_regex_literal:
  "findClosingBracket ''env[name=@[ab].c@]'' 4 = Some 17
   \<and> splitPath ''env[name=@[ab].c@]'' = [''env[name=@[ab]'', ''c@]'']
   \<and> Parse L ''env[name=@[ab].c@]'' = Inl (InvalidSegment ''env[name=@[ab]'' NoClosingBracket)"
  by (simp add: Parse_def splitPath_def rangeRunes_def parseSegment_def parseArraySegment_def
      strings_Contains_def strings_Index_def findClosingBracket_def)

lemma Atoi_None_if_equals_sign: "CHR ''='' \<in> set s \<Longrightarrow> Atoi s = None"
  by (cases s) (auto simp: Atoi_def list_all_iff isDigit_def byte_in_def)







lemmas example_defs = example_lib_def readme_pattern_def mapping_def sequence_def document_def
  str_def scalar_def alias_to_def field_segment_def array_segment_def wildcard_selector_def
  index_selector_def condition_selector_def delete_rule_def replace_rule_def



subsection \<open>The navigator: selectors\<close>

lemma matchCondition_loop_cases:
  "matchCondition_loop L h cond cs = Panic \<or> (\<exists>b. matchCondition_loop L h cond cs = Ok b)"
  by (induction L h cond cs rule: matchCondition_loop.induct)
     (auto split: option.splits Operator.splits cond_value.splits)

lemma matchCondition_cases:
  "fst (matchCondition L node cond h) = Panic \<or> (\<exists>b. fst (matchCondition L node cond h) = Ok b)"
  using matchCondition_loop_cases [of L h cond]
  by (auto simp: matchCondition_def split: option.splits)

lemma matchCondition_returns:
  "returns (fst (matchCondition L node cond h)) \<Longrightarrow> \<exists>b. matchCondition L node cond h = (Ok b, h)"
  using matchCondition_cases [of L node cond h] matchCondition_heap [of L node cond h]
  by (cases "matchCondition L node cond h") (auto simp: returns_def)

lemma wildcard_loop_result:
  assumes heap: "\<And>e segs h'. snd (rec e segs h') = h'"
      and ret: "\<forall>e\<in>set elems. returns (fst (rec e rest h))"
  shows "wildcard_loop rec elems rest results h =
           (Ok (results @ concat (map (element_matches rec rest h) elems)), h)"
  using ret
proof (induction elems arbitrary: results)
  case Nil
  show ?case by simp
next
  case (Cons elem elems)
  obtain r h' where r: "rec elem rest h = (r, h')" by (cases "rec elem rest h")
  with heap [of elem rest h] have h': "h' = h" by simp
  from Cons.prems r have "returns r" by simp
  with r h' Cons show ?case
    by (cases r) (simp_all add: returns_def element_matches_def)
qed

lemma condition_loop_result:
  assumes heap: "\<And>e segs h'. snd (rec e segs h') = h'"
      and ret: "\<forall>e\<in>set elems. returns (fst (matchCondition L e cond h))
                  \<and> (fst (matchCondition L e cond h) = Ok True \<longrightarrow> returns (fst (rec e rest h)))"
  shows "condition_loop L rec cond elems rest results h =
           (Ok (results @ concat (map (element_matches rec rest h)
                  (filter (\<lambda>e. fst (matchCondition L e cond h) = Ok True) elems))), h)"
  using ret
proof (induction elems arbitrary: results)
  case Nil
  show ?case by simp
next
  case (Cons elem elems)
  from Cons.prems obtain b where m: "matchCondition L elem cond h = (Ok b, h)"
    using matchCondition_returns [of L elem cond h] by auto
  obtain r h' where r: "rec elem rest h = (r, h')" by (cases "rec elem rest h")
  with heap [of elem rest h] have h': "h' = h" by simp
  show ?case
  proof (cases b)
    case True
    with Cons.prems m r have "returns r" by simp
    with r h' m True Cons show ?thesis
      by (cases r) (simp_all add: returns_def element_matches_def)
  next
    case False
    with m Cons show ?thesis by simp
  qed
qed

lemma condition_loop_cases_nomatch:
  "fst (case condition_loop L rec cond elems rest [] h of
          (Ok results, h') \<Rightarrow> if results = [] then (Err NoElementsMatchCondition, h') else (Ok results, h')
        | (Err err, h') \<Rightarrow> (Err err, h')
        | (Panic, h') \<Rightarrow> (Panic, h')
        | (Timeout, h') \<Rightarrow> (Timeout, h')) \<noteq> Ok []"
  by (cases "condition_loop L rec cond elems rest [] h") (auto split: outcome.splits)

lemma findRecursive_at_array:
  assumes "deref h node = Some n" and "Kind n = MappingNode"
    and "seg_Type segment = SegmentTypeArray"
    and "lookupKey h (seg_Field segment) (Content n) = Found arrayNode"
    and "deref h arrayNode = Some arr" and "Kind arr = SequenceNode"
    and "seg_Selector segment = Some selector"
  shows "findRecursive L (Suc fuel) node (segment # rest) h =
     (case sel_Type selector of
        SelectorTypeWildcard \<Rightarrow> wildcard_loop (findRecursive L fuel) (Content arr) rest [] h
      | SelectorTypeIndex \<Rightarrow>
          (case sel_Condition selector of
             None \<Rightarrow> (Panic, h)
           | Some c \<Rightarrow>
               (case cond_Value c of
                  StringValue s \<Rightarrow> (Panic, h)
                | IntValue idx \<Rightarrow>
                    if idx < 0 \<or> idx \<ge> int (length (Content arr))
                    then (Err (IndexOutOfRange idx), h)
                    else findRecursive L fuel (Content arr ! nat idx) rest h))
      | SelectorTypeCondition \<Rightarrow>
          (case condition_loop L (findRecursive L fuel) (sel_Condition selector)
                  (Content arr) rest [] h of
             (Ok results, h') \<Rightarrow>
               if results = [] then (Err NoElementsMatchCondition, h')
               else (Ok results, h')
           | (Err err, h') \<Rightarrow> (Err err, h')
           | (Panic, h') \<Rightarrow> (Panic, h')
           | (Timeout, h') \<Rightarrow> (Timeout, h')))"
  using assms by (simp add: findArray_def)




text \<open>
  C1 (amended). Whenever resolution (findRecursive, which Find calls at the root with
  the whole address) stands at a Mapping with an ArrayAccess segment whose field is a
  Sequence: with a Condition selector it never returns an empty list, and, when the calls
  on the elements return, it fails with the no-match error if no element survives (matches
  the condition and resolves the remaining segments) and returns the survivors' matches in
  element order otherwise; with a Wildcard selector it returns the concatenation of the
  element-wise matches in element order, possibly empty, with no error. The error is
  the result of that segment's resolution only: a Wildcard segment before it passes over
  the failing element, so find as a whole can return an empty list.
\<close>

theorem Condition_and_Wildcard_selectors:
  assumes "deref h node = Some n" and "Kind n = MappingNode"
    and "seg_Type segment = SegmentTypeArray"
    and "lookupKey h (seg_Field segment) (Content n) = Found arrayNode"
    and "deref h arrayNode = Some arr" and "Kind arr = SequenceNode"
    and "seg_Selector segment = Some selector"
  shows "(sel_Type selector = SelectorTypeCondition \<longrightarrow>
            fst (findRecursive L (Suc fuel) node (segment # rest) h) \<noteq> Ok [])
       \<and> (sel_Type selector = SelectorTypeCondition \<longrightarrow>
            (\<forall>elem\<in>set (Content arr).
               returns (fst (matchCondition L elem (sel_Condition selector) h))
               \<and> (fst (matchCondition L elem (sel_Condition selector) h) = Ok True \<longrightarrow>
                    returns (fst (findRecursive L fuel elem rest h)))) \<longrightarrow>
            findRecursive L (Suc fuel) node (segment # rest) h =
              (if concat (map (element_matches (findRecursive L fuel) rest h)
                     (filter (\<lambda>elem. fst (matchCondition L elem (sel_Condition selector) h) = Ok True)
                        (Content arr))) = []
               then (Err NoElementsMatchCondition, h)
               else (Ok (concat (map (element_matches (findRecursive L fuel) rest h)
                     (filter (\<lambda>elem. fst (matchCondition L elem (sel_Condition selector) h) = Ok True)
                        (Content arr)))), h)))
       \<and> (sel_Type selector = SelectorTypeWildcard \<longrightarrow>
            (\<forall>elem\<in>set (Content arr). returns (fst (findRecursive L fuel elem rest h))) \<longrightarrow>
            findRecursive L (Suc fuel) node (segment # rest) h =
              (Ok (concat (map (element_matches (findRecursive L fuel) rest h) (Content arr))), h))"
proof (intro conjI impI)
  assume "sel_Type selector = SelectorTypeCondition"
  then show "fst (findRecursive L (Suc fuel) node (segment # rest) h) \<noteq> Ok []"
    by (simp only: findRecursive_at_array [OF assms] SelectorType.case condition_loop_cases_nomatch
        not_False_eq_True)
next
  assume c: "sel_Type selector = SelectorTypeCondition"
    and ret: "\<forall>elem\<in>set (Content arr).
               returns (fst (matchCondition L elem (sel_Condition selector) h))
               \<and> (fst (matchCondition L elem (sel_Condition selector) h) = Ok True \<longrightarrow>
                    returns (fst (findRecursive L fuel elem rest h)))"
  have "condition_loop L (findRecursive L fuel) (sel_Condition selector) (Content arr) rest [] h =
          (Ok ([] @ concat (map (element_matches (findRecursive L fuel) rest h)
                 (filter (\<lambda>e. fst (matchCondition L e (sel_Condition selector) h) = Ok True)
                    (Content arr)))), h)"
    by (rule condition_loop_result [where rec = "findRecursive L fuel", OF findRecursive_heap ret])
  with c show "findRecursive L (Suc fuel) node (segment # rest) h =
              (if concat (map (element_matches (findRecursive L fuel) rest h)
                     (filter (\<lambda>elem. fst (matchCondition L elem (sel_Condition selector) h) = Ok True)
                        (Content arr))) = []
               then (Err NoElementsMatchCondition, h)
               else (Ok (concat (map (element_matches (findRecursive L fuel) rest h)
                     (filter (\<lambda>elem. fst (matchCondition L elem (sel_Condition selector) h) = Ok True)
                        (Content arr)))), h))"
    by (simp add: findRecursive_at_array [OF assms] del: findRecursive.simps)
next
  assume w: "sel_Type selector = SelectorTypeWildcard"
    and ret: "\<forall>elem\<in>set (Content arr). returns (fst (findRecursive L fuel elem rest h))"
  have "wildcard_loop (findRecursive L fuel) (Content arr) rest [] h =
          (Ok ([] @ concat (map (element_matches (findRecursive L fuel) rest h) (Content arr))), h)"
    by (rule wildcard_loop_result [where rec = "findRecursive L fuel", OF findRecursive_heap ret])
  with w show "findRecursive L (Suc fuel) node (segment # rest) h =
              (Ok (concat (map (element_matches (findRecursive L fuel) rest h) (Content arr))), h)"
    by (simp add: findRecursive_at_array [OF assms] del: findRecursive.simps)
qed

text \<open>
  At the Mapping node 3 of \<open>nested_sequences\<close>: the condition \<open>name=x\<close> has no survivor
  and fails, \<open>name=y\<close> selects node 6, and the Wildcard followed by a field no element has
  returns the empty list.
\<close>

theorem Condition_and_Wildcard_selectors_witness:
  "findRecursive example_lib (Suc 1) 3
      [array_segment ''b'' (condition_selector ''name'' OpEqual ''x'')] nested_sequences
     = (Err NoElementsMatchCondition, nested_sequences)
   \<and> findRecursive example_lib (Suc 1) 3
      [array_segment ''b'' (condition_selector ''name'' OpEqual ''y'')] nested_sequences
     = (Ok [6], nested_sequences)
   \<and> findRecursive example_lib (Suc 1) 3
      [array_segment ''b'' wildcard_selector, field_segment ''zz''] nested_sequences
     = (Ok [], nested_sequences)"
proof -
  have n: "deref nested_sequences 3 = Some (mapping [4, 5])"
    and k: "Kind (mapping [4, 5]) = MappingNode"
    and a: "deref nested_sequences 5 = Some (sequence [6])"
    and s: "Kind (sequence [6]) = SequenceNode"
    by (simp_all add: deref_def nested_sequences_def mapping_def sequence_def)
  have t: "seg_Type (array_segment ''b'' sel) = SegmentTypeArray"
    and l: "lookupKey nested_sequences (seg_Field (array_segment ''b'' sel))
              (Content (mapping [4, 5])) = Found 5"
    and sel: "seg_Selector (array_segment ''b'' sel) = Some sel" for sel
    by (simp_all add: deref_def nested_sequences_def example_defs)
  have inst: "(sel_Type sl = SelectorTypeCondition \<longrightarrow>
            fst (findRecursive example_lib (Suc 1) 3 (array_segment ''b'' sl # rest) nested_sequences) \<noteq> Ok [])
       \<and> (sel_Type sl = SelectorTypeCondition \<longrightarrow>
            (\<forall>elem\<in>set (Content (sequence [6])).
               returns (fst (matchCondition example_lib elem (sel_Condition sl) nested_sequences))
               \<and> (fst (matchCondition example_lib elem (sel_Condition sl) nested_sequences) = Ok True \<longrightarrow>
                    returns (fst (findRecursive example_lib 1 elem rest nested_sequences)))) \<longrightarrow>
            findRecursive example_lib (Suc 1) 3 (array_segment ''b'' sl # rest) nested_sequences =
              (if concat (map (element_matches (findRecursive example_lib 1) rest nested_sequences)
                     (filter (\<lambda>elem. fst (matchCondition example_lib elem (sel_Condition sl) nested_sequences) = Ok True)
                        (Content (sequence [6])))) = []
               then (Err NoElementsMatchCondition, nested_sequences)
               else (Ok (concat (map (element_matches (findRecursive example_lib 1) rest nested_sequences)
                     (filter (\<lambda>elem. fst (matchCondition example_lib elem (sel_Condition sl) nested_sequences) = Ok True)
                        (Content (sequence [6]))))), nested_sequences)))
       \<and> (sel_Type sl = SelectorTypeWildcard \<longrightarrow>
            (\<forall>elem\<in>set (Content (sequence [6])). returns (fst (findRecursive example_lib 1 elem rest nested_sequences))) \<longrightarrow>
            findRecursive example_lib (Suc 1) 3 (array_segment ''b'' sl # rest) nested_sequences =
              (Ok (concat (map (element_matches (findRecursive example_lib 1) rest nested_sequences) (Content (sequence [6])))), nested_sequences))"
    for sl rest
    by (rule Condition_and_Wildcard_selectors [OF n k t [of sl] l [of sl] a s sel [of sl]])
  have m: "matchCondition example_lib 6
             (Some \<lparr>cond_Field = ''name'', cond_Op = OpEqual, cond_Value = StringValue v\<rparr>)
             nested_sequences = (Ok (v = ''y''), nested_sequences)" for v
    by (simp add: matchCondition_def deref_def nested_sequences_def example_defs Sprint_def eq_commute)
  have r0: "findRecursive example_lib (Suc 0) 6 [] nested_sequences = (Ok [6], nested_sequences)"
    by simp
  have r1: "findRecursive example_lib (Suc 0) 6 [field_segment ''zz''] nested_sequences
              = (Err (FieldNotFound ''zz''), nested_sequences)"
    by (simp add: findField_def deref_def nested_sequences_def example_defs)
  from inst [of "condition_selector ''name'' OpEqual ''x''" "[]"]
       inst [of "condition_selector ''name'' OpEqual ''y''" "[]"]
       inst [of wildcard_selector "[field_segment ''zz'']"]
  show ?thesis
    by (simp add: m r0 r1 returns_def element_matches_def sequence_def
        condition_selector_def wildcard_selector_def
        del: findRecursive.simps)
qed

text \<open>
  C1 as stated fails: the address \<open>a[*].b[name=x]\<close> ends in an ArrayAccess segment with a
  Condition selector, no element of \<open>b\<close> survives, and Find returns the empty list with no
  error, because the Wildcard of the first segment passes over the element whose
  resolution failed.
\<close>

theorem Wildcard_swallows_NoMatch_counterexample:
  "Parse example_lib ''a[*].b[name=x]'' =
     Inr \<lparr>Segments = [array_segment ''a'' wildcard_selector,
                      array_segment ''b'' (condition_selector ''name'' OpEqual ''x'')]\<rparr>
   \<and> fst (matchCondition example_lib 6
           (sel_Condition (condition_selector ''name'' OpEqual ''x'')) nested_sequences) = Ok False
   \<and> Find example_lib 3 0
        \<lparr>Segments = [array_segment ''a'' wildcard_selector,
                     array_segment ''b'' (condition_selector ''name'' OpEqual ''x'')]\<rparr>
        nested_sequences = (Ok [], nested_sequences)"
  by code_simp

subsection \<open>The mutation engine\<close>

text \<open>
  C2. For every delete rule whose address, after the optional where-clause filter,
  resolves to no candidate node, delete (and Apply on a delete rule) returns success and
  the heap is unchanged; replace, set and regexReplace on an address that resolves to no
  node return the error "no nodes found".
\<close>

theorem delete_of_no_candidate_is_a_no_op:
  assumes "Parse L (rule_Path rule) = Inr p"
  shows "(fst (FindWithWhere L fuel root p (rule_Where rule) h) = Ok [] \<longrightarrow>
            delete L fuel root rule h = (Ok (), h)
            \<and> (rule_Action rule = ActionDelete \<longrightarrow> Apply L fuel root rule h = (Ok (), h)))
       \<and> (fst (Find L fuel root p h) = Ok [] \<longrightarrow>
            replace L fuel root rule h = (Err NoNodesFound, h)
            \<and> set_rule L fuel root rule h = (Err NoNodesFound, h)
            \<and> regexReplace L fuel root rule h = (Err NoNodesFound, h))"
proof (intro conjI impI)
  assume "fst (FindWithWhere L fuel root p (rule_Where rule) h) = Ok []"
  with FindWithWhere_heap [of L fuel root p "rule_Where rule" h]
  have w: "FindWithWhere L fuel root p (rule_Where rule) h = (Ok [], h)"
    by (cases "FindWithWhere L fuel root p (rule_Where rule) h") simp
  with assms show d: "delete L fuel root rule h = (Ok (), h)"
    by (simp add: delete_def)
  assume "rule_Action rule = ActionDelete"
  with d show "Apply L fuel root rule h = (Ok (), h)"
    by (simp add: Apply_def ActionDelete_def ActionReplace_def ActionSet_def)
next
  assume "fst (Find L fuel root p h) = Ok []"
  with Find_heap [of L fuel root p h] have f: "Find L fuel root p h = (Ok [], h)"
    by (cases "Find L fuel root p h") simp
  from assms f show "replace L fuel root rule h = (Err NoNodesFound, h)"
    by (simp add: replace_def)
  from assms f show "set_rule L fuel root rule h = (Err NoNodesFound, h)"
    by (simp add: set_rule_def)
  from assms f show "regexReplace L fuel root rule h = (Err NoNodesFound, h)"
    by (simp add: regexReplace_def)
qed

text \<open>
  In Scenario B no element is named \<open>zzz\<close>, so the where-clause leaves no candidate; and
  no element has a member \<open>zz\<close>, so \<open>env[*].zz\<close> resolves to no node.
\<close>

theorem delete_of_no_candidate_is_a_no_op_witness:
  "Apply example_lib 3 0
     (delete_rule ''env[*]'' (Some \<lparr>NameRegex = [], NameNotIn = [], NameIn = [''zzz'']\<rparr>))
     scenario_B = (Ok (), scenario_B)
   \<and> replace example_lib 3 0 (replace_rule ''env[*].zz'' VNull) scenario_B
       = (Err NoNodesFound, scenario_B)"
proof -
  let ?w = "Some \<lparr>NameRegex = [], NameNotIn = [], NameIn = [''zzz'']\<rparr>"
  have p1: "Parse example_lib (rule_Path (delete_rule ''env[*]'' ?w))
              = Inr \<lparr>Segments = [array_segment ''env'' wildcard_selector]\<rparr>"
    by code_simp
  have f1: "fst (FindWithWhere example_lib 3 0 \<lparr>Segments = [array_segment ''env'' wildcard_selector]\<rparr>
              (rule_Where (delete_rule ''env[*]'' ?w)) scenario_B) = Ok []"
    by code_simp
  have a1: "rule_Action (delete_rule ''env[*]'' ?w) = ActionDelete"
    by (simp add: delete_rule_def)
  have p2: "Parse example_lib (rule_Path (replace_rule ''env[*].zz'' VNull))
              = Inr \<lparr>Segments = [array_segment ''env'' wildcard_selector, field_segment ''zz'']\<rparr>"
    by code_simp
  have f2: "fst (Find example_lib 3 0
              \<lparr>Segments = [array_segment ''env'' wildcard_selector, field_segment ''zz'']\<rparr>
              scenario_B) = Ok []"
    by code_simp
  from delete_of_no_candidate_is_a_no_op [OF p1, of 3 0 scenario_B]
       delete_of_no_candidate_is_a_no_op [OF p2, of 3 0 scenario_B] f1 a1 f2
  show ?thesis by simp
qed

subsection \<open>Regex selectors: parse time and match time\<close>

lemma matchCondition_loop_regex_error:
  assumes "cond_Field c = name" and "cond_Op c = OpRegex" and "cond_Value c = StringValue pattern"
    and "\<forall>s. regexp_MatchString L pattern s = None"
  shows "matchCondition_loop L h (Some c) cs \<noteq> Ok True"
  using assms
  by (induction L h "Some c" cs rule: matchCondition_loop.induct)
     (auto split: option.splits)

text \<open>
  C4. The claim is that a selector \<open>field=@pattern@\<close> that compiles never fails at match
  time. parseSelector validates the pattern with regexp2, but matchCondition matches with
  the standard library's \<^verbatim>\<open>regexp.MatchString\<close>, which compiles the pattern again under
  another syntax and whose error is answered with \<open>false\<close>. For the path of the README's
  delete example, whose pattern uses a look-ahead: when regexp2 compiles the pattern and
  the standard regexp does not (which is how the two libraries behave), Parse succeeds,
  no element of any tree ever matches the selector, and on the tree
  \<^verbatim>\<open>env: [{name: xxx_foo1}, {name: xxx_bar}]\<close> Find fails with "no elements match condition".
\<close>

theorem pattern_validated_by_regexp2_is_rejected_by_regexp:
  assumes "regexp2_Compile L readme_pattern"
    and "\<forall>s. regexp_MatchString L readme_pattern s = None"
  shows "Parse L ''env[name=@^xxx_(?!(foo1|foo2)$).*@]'' =
           Inr \<lparr>Segments = [array_segment ''env'' (condition_selector ''name'' OpRegex readme_pattern)]\<rparr>
       \<and> fst (matchCondition L node
               (sel_Condition (condition_selector ''name'' OpRegex readme_pattern)) h) \<noteq> Ok True
       \<and> Find L (Suc fuel) 0
            \<lparr>Segments = [array_segment ''env'' (condition_selector ''name'' OpRegex readme_pattern)]\<rparr>
            readme_env = (Err NoElementsMatchCondition, readme_env)"
proof (intro conjI)
  have a: "Atoi ''name=@^xxx_(?!(foo1|foo2)$).*@'' = None"
    by (rule Atoi_None_if_equals_sign) simp
  have t: "strings_Trim ''@^xxx_(?!(foo1|foo2)$).*@'' CHR ''@'' = readme_pattern"
    by (simp add: strings_Trim_def readme_pattern_def)
  have ne: "readme_pattern \<noteq> []"
    by (simp add: readme_pattern_def)
  have "parseSelector L ''name=@^xxx_(?!(foo1|foo2)$).*@'' =
          Inr (condition_selector ''name'' OpRegex readme_pattern)"
    using assms(1) ne
    by (simp add: parseSelector_def a t strings_Contains_def strings_SplitN2_def strings_HasPrefix_def
        strings_HasSuffix_def condition_selector_def)
  then show "Parse L ''env[name=@^xxx_(?!(foo1|foo2)$).*@]'' =
           Inr \<lparr>Segments = [array_segment ''env'' (condition_selector ''name'' OpRegex readme_pattern)]\<rparr>"
    by (simp add: Parse_def splitPath_def rangeRunes_def parseSegment_def parseArraySegment_def
        strings_Contains_def strings_Index_def findClosingBracket_def array_segment_def)
next
  have m: "matchCondition_loop L h'
             (Some \<lparr>cond_Field = ''name'', cond_Op = OpRegex, cond_Value = StringValue readme_pattern\<rparr>)
             cs \<noteq> Ok True" for h' cs
    by (rule matchCondition_loop_regex_error [OF _ _ _ assms(2)]) simp_all
  then show "fst (matchCondition L node
               (sel_Condition (condition_selector ''name'' OpRegex readme_pattern)) h) \<noteq> Ok True"
    by (simp add: matchCondition_def condition_selector_def split: option.splits)
  show "Find L (Suc fuel) 0
            \<lparr>Segments = [array_segment ''env'' (condition_selector ''name'' OpRegex readme_pattern)]\<rparr>
            readme_env = (Err NoElementsMatchCondition, readme_env)"
    using assms(2)
    by (simp add: Find_def findArray_def matchCondition_def deref_def readme_env_def mapping_def
        sequence_def str_def scalar_def array_segment_def condition_selector_def)
qed

text \<open>The same under the instance \<open>example_lib\<close> of the two libraries.\<close>

theorem pattern_validated_by_regexp2_is_rejected_by_regexp_witness:
  "Parse example_lib ''env[name=@^xxx_(?!(foo1|foo2)$).*@]'' =
           Inr \<lparr>Segments = [array_segment ''env'' (condition_selector ''name'' OpRegex readme_pattern)]\<rparr>
   \<and> Find example_lib (Suc 0) 0
        \<lparr>Segments = [array_segment ''env'' (condition_selector ''name'' OpRegex readme_pattern)]\<rparr>
        readme_env = (Err NoElementsMatchCondition, readme_env)"
proof -
  have c: "regexp2_Compile example_lib readme_pattern"
    and m: "\<forall>s. regexp_MatchString example_lib readme_pattern s = None"
    by (simp_all add: example_lib_def)
  from pattern_validated_by_regexp2_is_rejected_by_regexp [OF c m, of 0 readme_env 0]
  show ?thesis by simp
qed

subsection \<open>The mutation engine: replace\<close>

lemma Encode_extends:
  "\<exists>ext. snd (Encode v h) = h @ ext"
  "\<exists>ext. snd (Encode_seq vs h) = h @ ext"
  "\<exists>ext. snd (Encode_map kvs h) = h @ ext"
proof (induction v h and vs h and kvs h rule: Encode_Encode_seq_Encode_map.induct)
  case (9 v vs h)
  obtain n h1 where e: "Encode v h = (n, h1)" by (cases "Encode v h")
  with 9(1) obtain e1 where h1: "h1 = h @ e1" by auto
  obtain cs h2 where s: "Encode_seq vs (h1 @ [n]) = (cs, h2)" by (cases "Encode_seq vs (h1 @ [n])")
  with 9(2) [OF e [symmetric]] obtain e2 where "h2 = (h1 @ [n]) @ e2" by auto
  with e s h1 show ?case by simp
next
  case (11 kv kvs h)
  obtain n h1 where e: "Encode (snd kv) (h @ [scalar ''!!str'' (fst kv)]) = (n, h1)"
    by (cases "Encode (snd kv) (h @ [scalar ''!!str'' (fst kv)])")
  with 11(1) obtain e1 where h1: "h1 = (h @ [scalar ''!!str'' (fst kv)]) @ e1" by auto
  obtain cs h2 where s: "Encode_map kvs (h1 @ [n]) = (cs, h2)" by (cases "Encode_map kvs (h1 @ [n])")
  with 11(2) [OF e [symmetric]] obtain e2 where "h2 = (h1 @ [n]) @ e2" by auto
  with e s h1 show ?case by simp
qed (auto split: prod.splits)

lemma replace_loop_result:
  assumes "\<forall>a\<in>set nodes. a < length h"
  shows "\<exists>h'. replace_loop nodes newNode h = (Ok (), h') \<and> length h' = length h
           \<and> (\<forall>a\<in>set nodes. h' ! a = newNode) \<and> (\<forall>a. a \<notin> set nodes \<longrightarrow> h' ! a = h ! a)"
  using assms
proof (induction nodes arbitrary: h)
  case Nil
  show ?case by simp
next
  case (Cons node nodes)
  then have "\<forall>a\<in>set nodes. a < length (h[node := newNode])" by simp
  from Cons.IH [OF this] obtain h' where h': "replace_loop nodes newNode (h[node := newNode]) = (Ok (), h')"
    "length h' = length h" "\<forall>a\<in>set nodes. h' ! a = newNode"
    "\<forall>a. a \<notin> set nodes \<longrightarrow> h' ! a = (h[node := newNode]) ! a"
    by auto
  have "h' ! node = newNode"
  proof (cases "node \<in> set nodes")
    case True
    with h'(3) show ?thesis by simp
  next
    case False
    with h'(4) Cons.prems show ?thesis by simp
  qed
  with h' Cons.prems show ?case by auto
qed

text \<open>
  C7 (amended). For every replace rule whose path resolves to at least one node (each
  an allocated node), replace succeeds and overwrites each resolved node in place with
  the node built from the rule's value, whose descendants are new nodes that the
  overwriting leaves intact; every node not resolved by the path is unchanged, its child
  list included, so a resolved node keeps its position inside every parent container that
  is not itself resolved by the path.
\<close>

theorem replace_overwrites_in_place:
  assumes "Parse L (rule_Path rule) = Inr p"
    and "fst (Find L fuel root p h) = Ok nodes"
    and "nodes \<noteq> []"
    and "\<forall>node\<in>set nodes. node < length h"
  shows "fst (replace L fuel root rule h) = Ok ()
       \<and> (\<forall>node\<in>set nodes. snd (replace L fuel root rule h) ! node = fst (Encode (rule_Value rule) h))
       \<and> (\<forall>a < length h. a \<notin> set nodes \<longrightarrow> snd (replace L fuel root rule h) ! a = h ! a)
       \<and> (\<forall>a < length h. a \<notin> set nodes \<longrightarrow>
             Content (snd (replace L fuel root rule h) ! a) = Content (h ! a))
       \<and> (\<forall>a. length h \<le> a \<and> a < length (snd (Encode (rule_Value rule) h)) \<longrightarrow>
             snd (replace L fuel root rule h) ! a = snd (Encode (rule_Value rule) h) ! a)
       \<and> length (snd (replace L fuel root rule h)) = length (snd (Encode (rule_Value rule) h))"
proof -
  from assms(2) Find_heap [of L fuel root p h] have f: "Find L fuel root p h = (Ok nodes, h)"
    by (cases "Find L fuel root p h") simp
  obtain newNode h2 where e: "Encode (rule_Value rule) h = (newNode, h2)"
    by (cases "Encode (rule_Value rule) h")
  with Encode_extends(1) [of "rule_Value rule" h] obtain ext where h2: "h2 = h @ ext" by auto
  with assms(4) have "\<forall>a\<in>set nodes. a < length h2" by auto
  from replace_loop_result [OF this, of newNode] obtain h' where
    h': "replace_loop nodes newNode h2 = (Ok (), h')" "length h' = length h2"
      "\<forall>a\<in>set nodes. h' ! a = newNode" "\<forall>a. a \<notin> set nodes \<longrightarrow> h' ! a = h2 ! a"
    by auto
  from assms(1,3) f e h'(1) have r: "replace L fuel root rule h = (Ok (), h')"
    by (simp add: replace_def)
  have old: "a < length h \<Longrightarrow> a \<notin> set nodes \<Longrightarrow> h' ! a = h ! a" for a
    using h'(4) h2 by (simp add: nth_append)
  have new: "length h \<le> a \<Longrightarrow> h' ! a = h2 ! a" for a
    using h'(4) assms(4) by (auto simp: not_less [symmetric])
  show ?thesis
    using r e h'(2,3) old new by simp
qed

text \<open>
  In Scenario A, replacing \<open>spec.containers[*].image\<close> by the string \<open>new\<close> overwrites the
  nodes 10 and 15 and leaves the first container's Mapping (node 6) as it was.
\<close>

theorem replace_overwrites_in_place_witness:
  "fst (replace example_lib 5 0 (replace_rule ''spec.containers[*].image'' (VString ''new''))
          scenario_A) = Ok ()
   \<and> snd (replace example_lib 5 0 (replace_rule ''spec.containers[*].image'' (VString ''new''))
          scenario_A) ! 10 = str ''new''
   \<and> snd (replace example_lib 5 0 (replace_rule ''spec.containers[*].image'' (VString ''new''))
          scenario_A) ! 15 = str ''new''
   \<and> snd (replace example_lib 5 0 (replace_rule ''spec.containers[*].image'' (VString ''new''))
          scenario_A) ! 6 = mapping [7, 8, 9, 10]"
proof -
  let ?r = "replace_rule ''spec.containers[*].image'' (VString ''new'')"
  let ?p = "\<lparr>Segments = [field_segment ''spec'', array_segment ''containers'' wildcard_selector,
                          field_segment ''image'']\<rparr>"
  have p: "Parse example_lib (rule_Path ?r) = Inr ?p" by code_simp
  have f: "fst (Find example_lib 5 0 ?p scenario_A) = Ok [10, 15]" by code_simp
  have n: "[10, 15] \<noteq> ([] :: addr list)" by simp
  have b: "\<forall>node\<in>set [10, 15]. node < length scenario_A" by (simp add: scenario_A_def)
  have e: "fst (Encode (rule_Value ?r) scenario_A) = str ''new''"
    by (simp add: replace_rule_def str_def)
  have l: "length scenario_A = 16" and s: "scenario_A ! 6 = mapping [7, 8, 9, 10]"
    by (simp_all add: scenario_A_def)
  from replace_overwrites_in_place [OF p f n b] e l s show ?thesis by simp
qed

text \<open>
  C7 as stated fails where a resolved node is the child of another resolved node. In
  \<open>aliased_parent\<close> the path \<open>list[*].k\<close> resolves to node 5 (through the first element)
  and to node 7, the member \<open>k\<close> of node 5 (through the alias): replace overwrites both,
  and node 7 is no longer in the child list of its parent.
\<close>

theorem replace_of_parent_and_child_counterexample:
  "Find example_lib 5 0 \<lparr>Segments = [array_segment ''list'' wildcard_selector, field_segment ''k'']\<rparr>
      aliased_parent = (Ok [5, 7], aliased_parent)
   \<and> Content (aliased_parent ! 5) = [6, 7]
   \<and> fst (replace example_lib 5 0 (replace_rule ''list[*].k'' (VString ''v'')) aliased_parent) = Ok ()
   \<and> Content (snd (replace example_lib 5 0 (replace_rule ''list[*].k'' (VString ''v''))
                  aliased_parent) ! 5) = []"
  by code_simp

subsection \<open>The mutation engine: delete with a where-clause\<close>

lemma matchWhere_cases:
  "fst (matchWhere L node wh h) = Panic \<or> (\<exists>b. fst (matchWhere L node wh h) = Ok b)"
  by (auto simp: matchWhere_def split: option.splits lookup.splits)

lemma where_loop_result:
  assumes "\<forall>node\<in>set nodes. returns (fst (matchWhere L node wh h))"
  shows "where_loop L wh nodes results h =
           (Ok (results @ filter (\<lambda>node. fst (matchWhere L node wh h) = Ok True) nodes), h)"
  using assms
proof (induction nodes arbitrary: results)
  case Nil
  show ?case by simp
next
  case (Cons node nodes)
  from Cons.prems matchWhere_cases [of L node wh h]
  obtain b where "fst (matchWhere L node wh h) = Ok b" by (auto simp: returns_def)
  with matchWhere_heap [of L node wh h] have m: "matchWhere L node wh h = (Ok b, h)"
    by (cases "matchWhere L node wh h") simp
  with Cons show ?case by (cases b) simp_all
qed

lemma scenario_B_delete:
  "Apply L (Suc (Suc (Suc (Suc (Suc (Suc fuel)))))) 0
      (delete_rule ''env[?]'' (Some \<lparr>NameRegex = [], NameNotIn = [''foo1'', ''foo2''], NameIn = []\<rparr>))
      scenario_B
     = (Ok (), scenario_B[3 := sequence [4, 7]])"
proof -
  have p: "Parse L ''env[?]'' = Inr \<lparr>Segments = [array_segment ''env'' wildcard_selector]\<rparr>"
    by (simp add: Parse_def splitPath_def rangeRunes_def parseSegment_def parseArraySegment_def
        strings_Contains_def strings_Index_def findClosingBracket_def parseSelector_def
        array_segment_def wildcard_selector_def)
  have f: "Find L (Suc (Suc (Suc k))) 0 \<lparr>Segments = [array_segment ''env'' wildcard_selector]\<rparr>
             scenario_B = (Ok [4, 7, 10, 13], scenario_B)" for k
    by (simp add: Find_def findArray_def deref_def scenario_B_def example_defs)
  have w: "FindWithWhere L (Suc (Suc (Suc k))) 0 \<lparr>Segments = [array_segment ''env'' wildcard_selector]\<rparr>
             (Some \<lparr>NameRegex = [], NameNotIn = [''foo1'', ''foo2''], NameIn = []\<rparr>) scenario_B
           = (Ok [10, 13], scenario_B)" for k
    unfolding FindWithWhere_def f
    by (simp add: matchWhere_def deref_def scenario_B_def example_defs)
  have d1: "deleteNode (Suc (Suc (Suc (Suc (Suc (Suc k)))))) 0 10 scenario_B
              = (Ok (), scenario_B[3 := sequence [4, 7, 13]])" for k
    by (simp add: deleteNode_def deref_def set_Content_def scenario_B_def example_defs)
  have d2: "deleteNode (Suc (Suc (Suc (Suc (Suc (Suc k)))))) 0 13 (scenario_B[3 := sequence [4, 7, 13]])
              = (Ok (), scenario_B[3 := sequence [4, 7]])" for k
    by (simp add: deleteNode_def deref_def set_Content_def scenario_B_def example_defs)
  show ?thesis
    by (simp add: Apply_def delete_def delete_rule_def ActionDelete_def ActionReplace_def
        ActionSet_def p w d1 d2 del: findRecursive.simps deleteNodeRecursive.simps)
qed

text \<open>
  C8. Scenario B: on the Sequence of the four Mappings named foo1, foo2, foo3 and foo4,
  the delete rule on \<open>env[?]\<close> with \<open>name_not_in = [foo1, foo2]\<close> returns success for every
  depth bound from 6 on and leaves the heap unchanged but for the Sequence, whose child
  list is now the elements foo1 and foo2 in their order. The where-clause accepts a
  candidate exactly when it is a Mapping whose first \<open>name\<close> member has a non-empty value
  that matches the regex (if set), is not in the exclusion list and is in the inclusion
  list (if set); and FindWithWhere returns the accepted candidates of Find, in order.
\<close>

theorem where_clause_filter_and_Scenario_B:
  "Apply L (Suc (Suc (Suc (Suc (Suc (Suc fuel)))))) 0
      (delete_rule ''env[?]'' (Some \<lparr>NameRegex = [], NameNotIn = [''foo1'', ''foo2''], NameIn = []\<rparr>))
      scenario_B
     = (Ok (), scenario_B[3 := sequence [4, 7]])
   \<and> (deref h node = Some n \<longrightarrow>
        (fst (matchWhere L node wh h) = Ok True) =
        (Kind n = MappingNode
         \<and> (\<exists>valueNode v. lookupKey h ''name'' (Content n) = Found valueNode
               \<and> deref h valueNode = Some v \<and> Value v \<noteq> []
               \<and> (NameRegex wh = [] \<or> regexp_MatchString L (NameRegex wh) (Value v) = Some True)
               \<and> Value v \<notin> set (NameNotIn wh)
               \<and> (NameIn wh = [] \<or> Value v \<in> set (NameIn wh)))))
   \<and> (fst (Find L fuel' root path h) = Ok candidates
        \<and> (\<forall>c\<in>set candidates. returns (fst (matchWhere L c wh h))) \<longrightarrow>
        FindWithWhere L fuel' root path (Some wh) h =
          (Ok (filter (\<lambda>c. fst (matchWhere L c wh h) = Ok True) candidates), h))"
proof (intro conjI impI)
  show "Apply L (Suc (Suc (Suc (Suc (Suc (Suc fuel)))))) 0
      (delete_rule ''env[?]'' (Some \<lparr>NameRegex = [], NameNotIn = [''foo1'', ''foo2''], NameIn = []\<rparr>))
      scenario_B
     = (Ok (), scenario_B[3 := sequence [4, 7]])"
    by (rule scenario_B_delete)
next
  assume "deref h node = Some n"
  then show "(fst (matchWhere L node wh h) = Ok True) =
        (Kind n = MappingNode
         \<and> (\<exists>valueNode v. lookupKey h ''name'' (Content n) = Found valueNode
               \<and> deref h valueNode = Some v \<and> Value v \<noteq> []
               \<and> (NameRegex wh = [] \<or> regexp_MatchString L (NameRegex wh) (Value v) = Some True)
               \<and> Value v \<notin> set (NameNotIn wh)
               \<and> (NameIn wh = [] \<or> Value v \<in> set (NameIn wh))))"
    by (auto simp: matchWhere_def split: option.splits lookup.splits)
next
  assume a: "fst (Find L fuel' root path h) = Ok candidates
        \<and> (\<forall>c\<in>set candidates. returns (fst (matchWhere L c wh h)))"
  with Find_heap [of L fuel' root path h] have f: "Find L fuel' root path h = (Ok candidates, h)"
    by (cases "Find L fuel' root path h") simp
  from a have "where_loop L wh candidates [] h =
           (Ok ([] @ filter (\<lambda>node. fst (matchWhere L node wh h) = Ok True) candidates), h)"
    by (intro where_loop_result) simp
  with f show "FindWithWhere L fuel' root path (Some wh) h =
          (Ok (filter (\<lambda>c. fst (matchWhere L c wh h) = Ok True) candidates), h)"
    by (simp add: FindWithWhere_def)
qed

text \<open>
  In Scenario B the where-clause accepts the element foo3 (node 10), rejects foo1 (node
  4), and FindWithWhere keeps the nodes 10 and 13.
\<close>

theorem where_clause_filter_and_Scenario_B_witness:
  "fst (matchWhere example_lib 10 \<lparr>NameRegex = [], NameNotIn = [''foo1'', ''foo2''], NameIn = []\<rparr>
          scenario_B) = Ok True
   \<and> fst (matchWhere example_lib 4 \<lparr>NameRegex = [], NameNotIn = [''foo1'', ''foo2''], NameIn = []\<rparr>
          scenario_B) \<noteq> Ok True
   \<and> FindWithWhere example_lib 3 0 \<lparr>Segments = [array_segment ''env'' wildcard_selector]\<rparr>
        (Some \<lparr>NameRegex = [], NameNotIn = [''foo1'', ''foo2''], NameIn = []\<rparr>) scenario_B
       = (Ok [10, 13], scenario_B)"
proof -
  let ?w = "\<lparr>NameRegex = [], NameNotIn = [''foo1'', ''foo2''], NameIn = []\<rparr>"
  have d: "deref scenario_B 10 = Some (mapping [11, 12])" "deref scenario_B 4 = Some (mapping [5, 6])"
    by (simp_all add: deref_def scenario_B_def)
  have k: "lookupKey scenario_B ''name'' [11, 12] = Found 12" "lookupKey scenario_B ''name'' [5, 6] = Found 6"
    "deref scenario_B 12 = Some (str ''foo3'')" "deref scenario_B 6 = Some (str ''foo1'')"
    by (simp_all add: deref_def scenario_B_def example_defs)
  have f: "fst (Find example_lib 3 0 \<lparr>Segments = [array_segment ''env'' wildcard_selector]\<rparr> scenario_B)
             = Ok [4, 7, 10, 13]"
    by code_simp
  have m: "fst (matchWhere example_lib 4 ?w scenario_B) = Ok False"
    "fst (matchWhere example_lib 7 ?w scenario_B) = Ok False"
    "fst (matchWhere example_lib 10 ?w scenario_B) = Ok True"
    "fst (matchWhere example_lib 13 ?w scenario_B) = Ok True"
    by code_simp+
  note inst = where_clause_filter_and_Scenario_B [where L = example_lib and h = scenario_B and wh = ?w]
  from inst [where node = 10 and n = "mapping [11, 12]"]
       inst [where node = 4 and n = "mapping [5, 6]" and fuel' = 3 and root = 0
         and path = "\<lparr>Segments = [array_segment ''env'' wildcard_selector]\<rparr>"
         and candidates = "[4, 7, 10, 13]"]
       d k f m
  show ?thesis by (simp add: mapping_def str_def scalar_def returns_def)
qed

end
